theory Spec2Isabelle
  imports Complex_Main
begin

section \<open>Values of the toolkit that view.cpp computes with\<close>

text \<open>
  \<^verbatim>\<open>qreal\<close> (a double) and the \<^verbatim>\<open>float\<close> locals of \<^verbatim>\<open>View::updateScale\<close> are read as
  mathematical reals: rounding, infinities and NaN are outside this development, and
  every statement below is about the formulas as written.

  \<^verbatim>\<open>int\<close> has 32 bits. A value of type \<^verbatim>\<open>int\<close> is an integer between \<open>- 2147483648\<close> and
  \<open>2147483647\<close>; the result of an addition or subtraction is brought back into that
  range by \<open>int32\<close> (two's complement), and \<open>toInt\<close> is the cast \<^verbatim>\<open>int(d)\<close> of a
  double: truncation towards zero, and \<open>- 2147483648\<close> for a value that does not fit.
  C++ leaves both overflows undefined; these are the values that the usual hardware
  produces.
\<close>

definition int32 :: "int \<Rightarrow> int" where
  "int32 i = (i + 2147483648) mod 4294967296 - 2147483648"

definition toInt :: "real \<Rightarrow> int" where
  "toInt d =
     (if - 2147483649 < d \<and> d < 2147483648
      then (if d \<ge> 0 then \<lfloor>d\<rfloor> else \<lceil>d\<rceil>)
      else - 2147483648)"

type_synonym QPoint = "int \<times> int"
type_synonym QPointF = "real \<times> real"

text \<open>\<^verbatim>\<open>QRect\<close> stores its two corners; \<^verbatim>\<open>QRectF\<close> stores a corner and a size.\<close>

record QRect =
  r_x1 :: int
  r_y1 :: int
  r_x2 :: int
  r_y2 :: int

record QRectF =
  rf_x :: real
  rf_y :: real
  rf_w :: real
  rf_h :: real

text \<open>The affine part of a \<^verbatim>\<open>QTransform\<close> (the views of this file never use a projection).\<close>

record QTransform =
  m11 :: real
  m12 :: real
  m21 :: real
  m22 :: real
  m31 :: real
  m32 :: real

text \<open>\<^verbatim>\<open>qRound\<close>: \<^verbatim>\<open>d >= 0.0 ? int(d + 0.5) : int(d - 0.5)\<close>.\<close>

definition qRound :: "real \<Rightarrow> int" where
  "qRound d = (if d \<ge> 0 then toInt (d + 1/2) else toInt (d - 1/2))"

definition QPointF_toPoint :: "QPointF \<Rightarrow> QPoint" where
  "QPointF_toPoint p = (qRound (fst p), qRound (snd p))"

definition QPoint_toPointF :: "QPoint \<Rightarrow> QPointF" where
  "QPoint_toPointF p = (real_of_int (fst p), real_of_int (snd p))"

text \<open>\<^verbatim>\<open>QRect(left, top, width, height)\<close> and the accessors \<^verbatim>\<open>width()\<close>, \<^verbatim>\<open>height()\<close>.\<close>

definition QRect_make :: "int \<Rightarrow> int \<Rightarrow> int \<Rightarrow> int \<Rightarrow> QRect" where
  "QRect_make aleft atop awidth aheight =
     \<lparr>r_x1 = aleft, r_y1 = atop,
      r_x2 = int32 (aleft + awidth - 1), r_y2 = int32 (atop + aheight - 1)\<rparr>"

definition QRect_width :: "QRect \<Rightarrow> int" where
  "QRect_width r = int32 (r_x2 r - r_x1 r + 1)"

definition QRect_height :: "QRect \<Rightarrow> int" where
  "QRect_height r = int32 (r_y2 r - r_y1 r + 1)"

definition QRect_isNull :: "QRect \<Rightarrow> bool" where
  "QRect_isNull r = (r_x2 r = int32 (r_x1 r - 1) \<and> r_y2 r = int32 (r_y1 r - 1))"

text \<open>\<^verbatim>\<open>QRect::contains(const QRect &r, bool proper)\<close>, line by line.\<close>

definition QRect_contains :: "QRect \<Rightarrow> QRect \<Rightarrow> bool \<Rightarrow> bool" where
  "QRect_contains s r proper =
     (if QRect_isNull s \<or> QRect_isNull r then False
      else
        let l1 = (if r_x2 s < int32 (r_x1 s - 1) then int32 (r_x2 s + 1) else r_x1 s);
            r1 = (if r_x2 s < int32 (r_x1 s - 1) then int32 (r_x1 s - 1) else r_x2 s);
            l2 = (if r_x2 r < int32 (r_x1 r - 1) then int32 (r_x2 r + 1) else r_x1 r);
            r2 = (if r_x2 r < int32 (r_x1 r - 1) then int32 (r_x1 r - 1) else r_x2 r)
        in
        if (if proper then l2 \<le> l1 \<or> r2 \<ge> r1 else l2 < l1 \<or> r2 > r1) then False
        else
          let t1 = (if r_y2 s < int32 (r_y1 s - 1) then int32 (r_y2 s + 1) else r_y1 s);
              b1 = (if r_y2 s < int32 (r_y1 s - 1) then int32 (r_y1 s - 1) else r_y2 s);
              t2 = (if r_y2 r < int32 (r_y1 r - 1) then int32 (r_y2 r + 1) else r_y1 r);
              b2 = (if r_y2 r < int32 (r_y1 r - 1) then int32 (r_y1 r - 1) else r_y2 r)
          in
          if (if proper then t2 \<le> t1 \<or> b2 \<ge> b1 else t2 < t1 \<or> b2 > b1) then False
          else True)"

text \<open>\<^verbatim>\<open>QRectF(const QRect &)\<close>, the implicit conversion in \<^verbatim>\<open>QRectF rect = ....toRect()\<close>.\<close>

definition QRectF_of_QRect :: "QRect \<Rightarrow> QRectF" where
  "QRectF_of_QRect r =
     \<lparr>rf_x = real_of_int (r_x1 r), rf_y = real_of_int (r_y1 r),
      rf_w = real_of_int (QRect_width r), rf_h = real_of_int (QRect_height r)\<rparr>"

text \<open>
  \<^verbatim>\<open>QRectF::toRect()\<close> of Qt 6 (the file uses \<^verbatim>\<open>QMouseEvent::position()\<close>, which is Qt 6):
  the corner is rounded, and the size is rounded after half of the corner's rounding
  error has been added to it.
\<close>

definition QRectF_toRect :: "QRectF \<Rightarrow> QRect" where
  "QRectF_toRect r =
     (let nxp = qRound (rf_x r);
          nyp = qRound (rf_y r);
          nw = qRound (rf_w r + (rf_x r - real_of_int nxp) / 2);
          nh = qRound (rf_h r + (rf_y r - real_of_int nyp) / 2)
      in QRect_make nxp nyp nw nh)"

definition QRectF_isNull :: "QRectF \<Rightarrow> bool" where
  "QRectF_isNull r = (rf_w r = 0 \<and> rf_h r = 0)"

text \<open>\<^verbatim>\<open>QRectF::united\<close> (\<^verbatim>\<open>operator|\<close>): a null operand gives the other one back.\<close>

definition QRectF_united :: "QRectF \<Rightarrow> QRectF \<Rightarrow> QRectF" where
  "QRectF_united s r =
     (if QRectF_isNull s then r
      else if QRectF_isNull r then s
      else
        let left0 = (if rf_w s < 0 then rf_x s + rf_w s else rf_x s);
            right0 = (if rf_w s < 0 then rf_x s else rf_x s + rf_w s);
            left1 = (if rf_w r < 0 then min left0 (rf_x r + rf_w r) else min left0 (rf_x r));
            right1 = (if rf_w r < 0 then max right0 (rf_x r) else max right0 (rf_x r + rf_w r));
            top0 = (if rf_h s < 0 then rf_y s + rf_h s else rf_y s);
            bottom0 = (if rf_h s < 0 then rf_y s else rf_y s + rf_h s);
            top1 = (if rf_h r < 0 then min top0 (rf_y r + rf_h r) else min top0 (rf_y r));
            bottom1 = (if rf_h r < 0 then max bottom0 (rf_y r) else max bottom0 (rf_y r + rf_h r))
        in \<lparr>rf_x = left1, rf_y = top1, rf_w = right1 - left1, rf_h = bottom1 - top1\<rparr>)"

definition QRectF_moveTo :: "QPointF \<Rightarrow> QRectF \<Rightarrow> QRectF" where
  "QRectF_moveTo p r = r\<lparr>rf_x := fst p, rf_y := snd p\<rparr>"

definition QRectF_adjust :: "real \<Rightarrow> real \<Rightarrow> real \<Rightarrow> real \<Rightarrow> QRectF \<Rightarrow> QRectF" where
  "QRectF_adjust xp1 yp1 xp2 yp2 r =
     \<lparr>rf_x = rf_x r + xp1, rf_y = rf_y r + yp1,
      rf_w = rf_w r + (xp2 - xp1), rf_h = rf_h r + (yp2 - yp1)\<rparr>"

definition QRectF_null :: QRectF where
  "QRectF_null = \<lparr>rf_x = 0, rf_y = 0, rf_w = 0, rf_h = 0\<rparr>"

text \<open>\<^verbatim>\<open>qBound(min, val, max)\<close> is \<^verbatim>\<open>qMax(min, qMin(max, val))\<close>.\<close>

definition qBound :: "real \<Rightarrow> real \<Rightarrow> real \<Rightarrow> real" where
  "qBound lo val hi = max lo (min hi val)"

definition QTransform_fromScale :: "real \<Rightarrow> real \<Rightarrow> QTransform" where
  "QTransform_fromScale sx sy = \<lparr>m11 = sx, m12 = 0, m21 = 0, m22 = sy, m31 = 0, m32 = 0\<rparr>"

text \<open>\<^verbatim>\<open>QTransform::translate(dx, dy)\<close>: the translation is applied before the matrix.\<close>

definition QTransform_translate :: "real \<Rightarrow> real \<Rightarrow> QTransform \<Rightarrow> QTransform" where
  "QTransform_translate dx dy t =
     t\<lparr>m31 := m31 t + dx * m11 t + dy * m21 t,
       m32 := m32 t + dy * m22 t + dx * m12 t\<rparr>"

text \<open>The edges of a \<^verbatim>\<open>QRectF\<close> as a region, whatever the sign of its size.\<close>

definition rf_left :: "QRectF \<Rightarrow> real" where
  "rf_left r = (if rf_w r < 0 then rf_x r + rf_w r else rf_x r)"

definition rf_right :: "QRectF \<Rightarrow> real" where
  "rf_right r = (if rf_w r < 0 then rf_x r else rf_x r + rf_w r)"

definition rf_top :: "QRectF \<Rightarrow> real" where
  "rf_top r = (if rf_h r < 0 then rf_y r + rf_h r else rf_y r)"

definition rf_bottom :: "QRectF \<Rightarrow> real" where
  "rf_bottom r = (if rf_h r < 0 then rf_y r else rf_y r + rf_h r)"

text \<open>\<open>rf_within r s\<close>: the region of \<open>r\<close> lies inside the region of \<open>s\<close>, edges included.\<close>

definition rf_within :: "QRectF \<Rightarrow> QRectF \<Rightarrow> bool" where
  "rf_within r s =
     (rf_left s \<le> rf_left r \<and> rf_right r \<le> rf_right s \<and>
      rf_top s \<le> rf_top r \<and> rf_bottom r \<le> rf_bottom s)"

text \<open>\<open>rf_small r\<close>: the corner and the size of \<open>r\<close> are at most \<open>10\<^sup>9\<close> in absolute value,
  so that rounding \<open>r\<close>, padding it and rounding it again stays in the range of \<^verbatim>\<open>int\<close>.\<close>

definition rf_small :: "QRectF \<Rightarrow> bool" where
  "rf_small r =
     (\<bar>rf_x r\<bar> \<le> 1000000000 \<and> \<bar>rf_y r\<bar> \<le> 1000000000 \<and>
      \<bar>rf_w r\<bar> \<le> 1000000000 \<and> \<bar>rf_h r\<bar> \<le> 1000000000)"

section \<open>The scene, as the view sees it\<close>

text \<open>
  The classes of \<^verbatim>\<open>scene.hpp\<close> and \<^verbatim>\<open>commands/item_remove.hpp\<close> are used by view.cpp only
  through a few calls. The view only reads three things from a scene and only sends it four requests, so a scene
  is what it answers (\<open>Scene\<close>) and the requests are recorded in the order they are made
  (\<open>SceneCall\<close>). Scenes and items are named by their addresses.
\<close>

datatype SceneMode = Scene_NormalMode | Scene_WireMode | Scene_UserMode nat

record GraphicsItem =
  boundingRect :: QRectF
  scenePos :: QPointF

record Scene =
  scene_mode :: SceneMode
  selectedTopLevelItems :: "nat list"
  items :: "GraphicsItem list"

datatype Command = ItemRemove nat nat

datatype SceneCall =
    Scene_setMode SceneMode
  | Scene_toggleWirePosture
  | Scene_removeLastWirePoint
  | UndoStack_push Command

section \<open>The state of a view\<close>

datatype Mode = NormalMode | PanMode

datatype CursorShape = ArrowCursor | CrossCursor | ClosedHandCursor

datatype ViewportAnchor = NoAnchor | AnchorViewCenter | AnchorUnderMouse

datatype Signal = ZoomChanged real | ModeChanged Mode | DebugLine real

text \<open>The one option of \<^verbatim>\<open>Settings\<close> that view.cpp reads.\<close>

record Settings =
  antialiasing :: bool

text \<open>What view.cpp sets on, and reads back from, its base class \<^verbatim>\<open>QGraphicsView\<close>.\<close>

record Widget =
  transform :: QTransform
  transformationAnchor :: ViewportAnchor
  sceneRect :: QRectF
  viewportCursor :: CursorShape
  renderAntialiasing :: bool

text \<open>
  The members of \<^verbatim>\<open>View\<close>, its base-class part, the connections that \<^verbatim>\<open>setScene\<close> has made
  (one entry per \<^verbatim>\<open>connect\<close>, naming the sending scene), the signals emitted and the
  requests sent to scenes, oldest first.
\<close>

record View =
  scaleFactor :: real
  mode :: Mode
  panStart :: QPointF
  scene :: "nat option"
  settings :: Settings
  widget :: Widget
  connections :: "nat list"
  emitted :: "Signal list"
  sceneCalls :: "(nat \<times> SceneCall) list"

text \<open>
  The constants \<^verbatim>\<open>zoom_factor_min\<close>, \<^verbatim>\<open>zoom_factor_max\<close>, \<^verbatim>\<open>zoom_factor_step\<close> and
  \<^verbatim>\<open>fitall_padding\<close> are declared in \<^verbatim>\<open>view.hpp\<close>, not in view.cpp: they are parameters.
\<close>

record Config =
  zoom_factor_min :: real
  zoom_factor_max :: real
  zoom_factor_step :: real
  fitall_padding :: real

datatype Key =
    Key_Plus | Key_Minus | Key_0 | Key_W | Key_Space
  | Key_Escape | Key_Delete | Key_Backspace | Key_Other nat

record KeyEvent =
  controlModifier :: bool
  key :: Key

record WheelEvent =
  wheelControlModifier :: bool
  angleDeltaY :: int

datatype MouseButton = NoButton | LeftButton | RightButton | MiddleButton

record MouseEvent =
  button :: MouseButton
  position :: QPointF

text \<open>\<^verbatim>\<open>QMouseEvent::pos()\<close> is \<^verbatim>\<open>position().toPoint()\<close>.\<close>

definition pos :: "MouseEvent \<Rightarrow> QPoint" where
  "pos ev = QPointF_toPoint (position ev)"

text \<open>
  What the base class computes and view.cpp only asks for: the mapping from viewport to
  scene coordinates, the geometry of the viewport, and the handlers that view.cpp
  delegates to. They are arbitrary functions of the base-class state. The accepted flag
  of an event belongs to the event object and is not part of the state.
\<close>

record Toolkit =
  mapToScene :: "Widget \<Rightarrow> QPoint \<Rightarrow> QPointF"
  viewportRectInScene :: "Widget \<Rightarrow> QRectF"
  viewportGeometryWidth :: "Widget \<Rightarrow> int"
  viewportGeometryInScene :: "Widget \<Rightarrow> QRectF"
  QGraphicsView_fitInView :: "QRectF \<Rightarrow> Widget \<Rightarrow> Widget"
  QGraphicsView_setScene :: "nat option \<Rightarrow> Widget \<Rightarrow> Widget"
  QGraphicsView_keyPressEvent :: "KeyEvent \<Rightarrow> Widget \<Rightarrow> Widget"
  QGraphicsView_mouseMoveEvent :: "MouseEvent \<Rightarrow> Widget \<Rightarrow> Widget"
  QGraphicsView_mousePressEvent :: "MouseEvent \<Rightarrow> Widget \<Rightarrow> Widget"
  QGraphicsView_mouseReleaseEvent :: "MouseEvent \<Rightarrow> Widget \<Rightarrow> Widget"

section \<open>The setters of the base class\<close>

definition setTransform :: "QTransform \<Rightarrow> View \<Rightarrow> View" where
  "setTransform t v = v\<lparr>widget := (widget v)\<lparr>transform := t\<rparr>\<rparr>"

definition setTransformationAnchor :: "ViewportAnchor \<Rightarrow> View \<Rightarrow> View" where
  "setTransformationAnchor a v = v\<lparr>widget := (widget v)\<lparr>transformationAnchor := a\<rparr>\<rparr>"

definition setSceneRect :: "QRectF \<Rightarrow> View \<Rightarrow> View" where
  "setSceneRect r v = v\<lparr>widget := (widget v)\<lparr>sceneRect := r\<rparr>\<rparr>"

definition setCursor :: "CursorShape \<Rightarrow> View \<Rightarrow> View" where
  "setCursor c v = v\<lparr>widget := (widget v)\<lparr>viewportCursor := c\<rparr>\<rparr>"

definition setRenderHint_Antialiasing :: "bool \<Rightarrow> View \<Rightarrow> View" where
  "setRenderHint_Antialiasing b v = v\<lparr>widget := (widget v)\<lparr>renderAntialiasing := b\<rparr>\<rparr>"

definition emit :: "Signal \<Rightarrow> View \<Rightarrow> View" where
  "emit s v = v\<lparr>emitted := emitted v @ [s]\<rparr>"

definition callScene :: "nat \<Rightarrow> SceneCall \<Rightarrow> View \<Rightarrow> View" where
  "callScene s c v = v\<lparr>sceneCalls := sceneCalls v @ [(s, c)]\<rparr>"

section \<open>view.cpp\<close>

text \<open>\<^verbatim>\<open>View::updateSceneRect\<close>. \<open>paddedVisibleRect\<close> is the value of \<^verbatim>\<open>rect\<close> after its second
  assignment.\<close>

definition paddedVisibleRect :: "Toolkit \<Rightarrow> View \<Rightarrow> QRectF" where
  "paddedVisibleRect tk v =
     (let rect = QRectF_of_QRect (QRectF_toRect (viewportRectInScene tk (widget v)))
      in \<lparr>rf_x = rf_x rect - 50, rf_y = rf_y rect - 50,
          rf_w = rf_w rect + 100, rf_h = rf_h rect + 100\<rparr>)"

definition updateSceneRect :: "Toolkit \<Rightarrow> View \<Rightarrow> View" where
  "updateSceneRect tk v =
     (let rect = paddedVisibleRect tk v in
      if \<not> QRect_contains (QRectF_toRect (sceneRect (widget v))) (QRectF_toRect rect) True
      then setSceneRect (QRectF_united (sceneRect (widget v)) rect) v
      else v)"

text \<open>\<^verbatim>\<open>View::updateScale\<close>; \<open>zoomOf\<close> is its local \<^verbatim>\<open>zoom\<close>.\<close>

definition zoomOf :: "Config \<Rightarrow> real \<Rightarrow> real" where
  "zoomOf cfg sf =
     (let logMinZoom = ln (zoom_factor_min cfg);
          logMaxZoom = ln (zoom_factor_max cfg);
          logZoom = logMinZoom + (logMaxZoom - logMinZoom) * sf
      in exp logZoom)"

definition updateScale :: "Config \<Rightarrow> Toolkit \<Rightarrow> View \<Rightarrow> View" where
  "updateScale cfg tk v =
     (let zoom = zoomOf cfg (scaleFactor v);
          v1 = setTransformationAnchor AnchorUnderMouse v;
          v2 = setTransform (QTransform_fromScale zoom zoom) v1;
          v3 = updateSceneRect tk v2;
          v4 = emit (DebugLine zoom) v3
      in emit (ZoomChanged zoom) v4)"

text \<open>\<^verbatim>\<open>View::setZoomValue\<close>; \<open>normalized\<close> is the value it stores.\<close>

definition normalized :: "Config \<Rightarrow> real \<Rightarrow> real" where
  "normalized cfg factor =
     ln (zoom_factor_min cfg / factor) / ln (zoom_factor_min cfg / zoom_factor_max cfg)"

definition setZoomValue :: "Config \<Rightarrow> Toolkit \<Rightarrow> real \<Rightarrow> View \<Rightarrow> View" where
  "setZoomValue cfg tk factor v =
     updateScale cfg tk (v\<lparr>scaleFactor := normalized cfg factor\<rparr>)"

definition zoomValue :: "View \<Rightarrow> real" where
  "zoomValue v = scaleFactor v"

definition setMode :: "Mode \<Rightarrow> View \<Rightarrow> View" where
  "setMode newMode v = emit (ModeChanged newMode) (v\<lparr>mode := newMode\<rparr>)"

definition setSettings :: "Settings \<Rightarrow> View \<Rightarrow> View" where
  "setSettings s v = setRenderHint_Antialiasing (antialiasing s) (v\<lparr>settings := s\<rparr>)"

definition baseClass :: "(Widget \<Rightarrow> Widget) \<Rightarrow> View \<Rightarrow> View" where
  "baseClass f v = v\<lparr>widget := f (widget v)\<rparr>"

text \<open>The loop of the \<^verbatim>\<open>Key_Delete\<close> case, over the list that
  \<^verbatim>\<open>selectedTopLevelItems()\<close> returned.\<close>

fun pushItemRemoves :: "nat \<Rightarrow> nat list \<Rightarrow> View \<Rightarrow> View" where
  "pushItemRemoves s [] v = v"
| "pushItemRemoves s (item # rest) v =
     pushItemRemoves s rest (callScene s (UndoStack_push (ItemRemove s item)) v)"

text \<open>\<^verbatim>\<open>View::keyPressEvent\<close>. \<open>scn\<close> gives the scene found at an address.\<close>

definition keyPressEvent_plain :: "Toolkit \<Rightarrow> (nat \<Rightarrow> Scene) \<Rightarrow> KeyEvent \<Rightarrow> View \<Rightarrow> View" where
  "keyPressEvent_plain tk scn event v =
     (case key event of
        Key_Escape \<Rightarrow>
          (case scene v of Some s \<Rightarrow> callScene s (Scene_setMode Scene_NormalMode) v
                         | None \<Rightarrow> v)
      | Key_Delete \<Rightarrow>
          (case scene v of
             Some s \<Rightarrow>
               if scene_mode (scn s) = Scene_NormalMode
               then pushItemRemoves s (selectedTopLevelItems (scn s)) v
               else callScene s Scene_removeLastWirePoint v
           | None \<Rightarrow> v)
      | Key_Backspace \<Rightarrow>
          (case scene v of
             Some s \<Rightarrow>
               if scene_mode (scn s) = Scene_WireMode
               then callScene s Scene_removeLastWirePoint v
               else baseClass (QGraphicsView_keyPressEvent tk event) v
           | None \<Rightarrow> baseClass (QGraphicsView_keyPressEvent tk event) v)
      | _ \<Rightarrow> baseClass (QGraphicsView_keyPressEvent tk event) v)"

definition keyPressEvent ::
  "Config \<Rightarrow> Toolkit \<Rightarrow> (nat \<Rightarrow> Scene) \<Rightarrow> KeyEvent \<Rightarrow> View \<Rightarrow> View" where
  "keyPressEvent cfg tk scn event v =
     (if controlModifier event then
        (case key event of
           Key_Plus \<Rightarrow>
             updateScale cfg tk (v\<lparr>scaleFactor := scaleFactor v + zoom_factor_step cfg\<rparr>)
         | Key_Minus \<Rightarrow>
             updateScale cfg tk (v\<lparr>scaleFactor := scaleFactor v - zoom_factor_step cfg\<rparr>)
         | Key_0 \<Rightarrow> updateScale cfg tk (setZoomValue cfg tk 1 v)
         | Key_W \<Rightarrow>
             (case scene v of Some s \<Rightarrow> callScene s (Scene_setMode Scene_WireMode) v
                            | None \<Rightarrow> v)
         | Key_Space \<Rightarrow>
             (case scene v of Some s \<Rightarrow> callScene s Scene_toggleWirePosture v
                            | None \<Rightarrow> v)
         | _ \<Rightarrow> keyPressEvent_plain tk scn event v)
      else keyPressEvent_plain tk scn event v)"

text \<open>\<^verbatim>\<open>View::wheelEvent\<close>.\<close>

definition wheelEvent :: "Config \<Rightarrow> Toolkit \<Rightarrow> WheelEvent \<Rightarrow> View \<Rightarrow> View" where
  "wheelEvent cfg tk event v =
     (if wheelControlModifier event then
        let sf = (if angleDeltaY event > 0 then scaleFactor v + zoom_factor_step cfg
                  else if angleDeltaY event < 0 then scaleFactor v - zoom_factor_step cfg
                  else scaleFactor v)
        in updateScale cfg tk (v\<lparr>scaleFactor := qBound 0 sf 1\<rparr>)
      else v)"

text \<open>\<^verbatim>\<open>View::mouseMoveEvent\<close>, \<^verbatim>\<open>mousePressEvent\<close>, \<^verbatim>\<open>mouseReleaseEvent\<close>.\<close>

definition panDelta :: "Toolkit \<Rightarrow> MouseEvent \<Rightarrow> View \<Rightarrow> QPointF" where
  "panDelta tk event v =
     (let a = mapToScene tk (widget v) (pos event);
          b = mapToScene tk (widget v) (QPointF_toPoint (panStart v))
      in (fst a - fst b, snd a - snd b))"

definition mouseMoveEvent :: "Toolkit \<Rightarrow> MouseEvent \<Rightarrow> View \<Rightarrow> View" where
  "mouseMoveEvent tk event v =
     (let v0 = baseClass (QGraphicsView_mouseMoveEvent tk event) v in
      case mode v0 of
        NormalMode \<Rightarrow> v0
      | PanMode \<Rightarrow>
          let delta = panDelta tk event v0;
              v1 = setTransformationAnchor NoAnchor v0;
              v2 = setTransform
                     (QTransform_translate (fst delta) (snd delta) (transform (widget v1))) v1;
              v3 = v2\<lparr>panStart := position event\<rparr>
          in updateSceneRect tk v3)"

definition mousePressEvent :: "Toolkit \<Rightarrow> MouseEvent \<Rightarrow> View \<Rightarrow> View" where
  "mousePressEvent tk event v =
     (if button event = MiddleButton then
        let v1 = setMode PanMode v;
            v2 = v1\<lparr>panStart := QPoint_toPointF (pos event)\<rparr>
        in setCursor ClosedHandCursor v2
      else baseClass (QGraphicsView_mousePressEvent tk event) v)"

definition mouseReleaseEvent :: "Toolkit \<Rightarrow> MouseEvent \<Rightarrow> View \<Rightarrow> View" where
  "mouseReleaseEvent tk event v =
     (if button event = MiddleButton then
        setCursor ArrowCursor (setMode NormalMode v)
      else baseClass (QGraphicsView_mouseReleaseEvent tk event) v)"

text \<open>
  \<^verbatim>\<open>View::setScene\<close>. The \<^verbatim>\<open>connect\<close> call has no receiver object and its result is
  dropped, so nothing in the file can take the connection away again; it is recorded
  behind the ones made before. \<open>modeChanged_slot\<close> is the connected lambda, and
  \<open>Scene_modeChanged s newMode\<close> is scene \<open>s\<close> emitting its signal: every connection
  made for \<open>s\<close> runs the lambda.
\<close>

definition setScene :: "Toolkit \<Rightarrow> nat option \<Rightarrow> View \<Rightarrow> View" where
  "setScene tk sc v =
     (let v1 = (case sc of Some s \<Rightarrow> v\<lparr>connections := connections v @ [s]\<rparr> | None \<Rightarrow> v);
          v2 = baseClass (QGraphicsView_setScene tk sc) v1
      in v2\<lparr>scene := sc\<rparr>)"

definition modeChanged_slot :: "SceneMode \<Rightarrow> View \<Rightarrow> View" where
  "modeChanged_slot newMode v =
     (case newMode of
        Scene_NormalMode \<Rightarrow> setCursor ArrowCursor v
      | Scene_WireMode \<Rightarrow> setCursor CrossCursor v
      | _ \<Rightarrow> v)"

definition Scene_modeChanged :: "nat \<Rightarrow> SceneMode \<Rightarrow> View \<Rightarrow> View" where
  "Scene_modeChanged s newMode v =
     fold (\<lambda>c u. if c = s then modeChanged_slot newMode u else u) (connections v) v"

text \<open>\<^verbatim>\<open>View::fitInView\<close>. \<open>itemsRect\<close> is the loop over the items, \<open>fitRect\<close> the padded
  rectangle, \<open>cappedScale\<close> the value handed to \<^verbatim>\<open>setZoomValue\<close>.\<close>

definition itemsRect :: "GraphicsItem list \<Rightarrow> QRectF" where
  "itemsRect its =
     foldl (\<lambda>rect item. QRectF_united rect (QRectF_moveTo (scenePos item) (boundingRect item)))
       QRectF_null its"

definition fitRect :: "Config \<Rightarrow> GraphicsItem list \<Rightarrow> QRectF" where
  "fitRect cfg its =
     (let adj = max 0 (fitall_padding cfg)
      in QRectF_adjust (- adj) (- adj) adj adj (itemsRect its))"

definition cappedScale :: "real \<Rightarrow> real \<Rightarrow> real" where
  "cappedScale currentScaleFactor newScaleFactor =
     (if currentScaleFactor < 1 then min newScaleFactor 1
      else min newScaleFactor currentScaleFactor)"

definition measuredScale :: "Toolkit \<Rightarrow> View \<Rightarrow> real" where
  "measuredScale tk v =
     real_of_int (viewportGeometryWidth tk (widget v)) /
     rf_w (viewportGeometryInScene tk (widget v))"

definition fitInView :: "Config \<Rightarrow> Toolkit \<Rightarrow> (nat \<Rightarrow> Scene) \<Rightarrow> View \<Rightarrow> View" where
  "fitInView cfg tk scn v =
     (case scene v of
        None \<Rightarrow> v
      | Some s \<Rightarrow>
          let rect = fitRect cfg (items (scn s));
              currentScaleFactor = scaleFactor v;
              v1 = baseClass (QGraphicsView_fitInView tk rect) v;
              newScaleFactor = measuredScale tk v1
          in setZoomValue cfg tk (cappedScale currentScaleFactor newScaleFactor) v1)"

section \<open>A concrete configuration, toolkit and view\<close>

text \<open>
  Used where a statement is evaluated on an input: zoom between a quarter and ten times
  in steps of a tenth, a viewport of 800 by 600 pixels without scrolling, and a base
  class whose \<^verbatim>\<open>fitInView\<close> scales a rectangle to the viewport less a margin of two
  pixels.
\<close>

definition demo_config :: Config where
  "demo_config =
     \<lparr>zoom_factor_min = 1/4, zoom_factor_max = 10, zoom_factor_step = 1/10,
      fitall_padding = 20\<rparr>"

definition demo_visible :: "Widget \<Rightarrow> QRectF" where
  "demo_visible wd =
     \<lparr>rf_x = - m31 (transform wd) / m11 (transform wd),
      rf_y = - m32 (transform wd) / m22 (transform wd),
      rf_w = 800 / m11 (transform wd), rf_h = 600 / m22 (transform wd)\<rparr>"

definition demo_fit :: "QRectF \<Rightarrow> Widget \<Rightarrow> Widget" where
  "demo_fit rect wd =
     (if QRectF_isNull rect then wd
      else let s = min (798 / rf_w rect) (598 / rf_h rect)
           in wd\<lparr>transform := QTransform_fromScale s s\<rparr>)"

definition demo_toolkit :: Toolkit where
  "demo_toolkit =
     \<lparr>mapToScene = (\<lambda>wd p. ((real_of_int (fst p) - m31 (transform wd)) / m11 (transform wd),
                              (real_of_int (snd p) - m32 (transform wd)) / m22 (transform wd))),
      viewportRectInScene = demo_visible,
      viewportGeometryWidth = (\<lambda>wd. 800),
      viewportGeometryInScene = demo_visible,
      QGraphicsView_fitInView = demo_fit,
      QGraphicsView_setScene = (\<lambda>sc wd. wd),
      QGraphicsView_keyPressEvent = (\<lambda>ev wd. wd),
      QGraphicsView_mouseMoveEvent = (\<lambda>ev wd. wd),
      QGraphicsView_mousePressEvent = (\<lambda>ev wd. wd),
      QGraphicsView_mouseReleaseEvent = (\<lambda>ev wd. wd)\<rparr>"

definition demo_widget :: Widget where
  "demo_widget =
     \<lparr>transform = QTransform_fromScale 1 1, transformationAnchor = AnchorViewCenter,
      sceneRect = \<lparr>rf_x = 0, rf_y = 0, rf_w = 2000, rf_h = 2000\<rparr>,
      viewportCursor = ArrowCursor, renderAntialiasing = False\<rparr>"

text \<open>A view without a scene, at the normalized factor \<open>sf\<close>.\<close>

definition demo_view :: "real \<Rightarrow> View" where
  "demo_view sf =
     \<lparr>scaleFactor = sf, mode = NormalMode, panStart = (0, 0), scene = None,
      settings = \<lparr>antialiasing = False\<rparr>, widget = demo_widget,
      connections = [], emitted = [], sceneCalls = []\<rparr>"

definition demo_scene :: "nat list \<Rightarrow> GraphicsItem list \<Rightarrow> nat \<Rightarrow> Scene" where
  "demo_scene sel its s =
     \<lparr>scene_mode = Scene_NormalMode, selectedTopLevelItems = sel, items = its\<rparr>"

section \<open>The zoom formula\<close>

lemma zoomOf_pos: "0 < zoomOf cfg f"
  by (simp add: zoomOf_def Let_def)

lemma ln_ratio_nonzero:
  fixes a b :: real
  assumes "0 < a" "0 < b" "a \<noteq> b"
  shows "ln a - ln b \<noteq> 0"
  using assms by simp

lemma normalized_zoomOf:
  assumes "0 < zoom_factor_min cfg" "0 < zoom_factor_max cfg"
    and "zoom_factor_min cfg \<noteq> zoom_factor_max cfg"
  shows "normalized cfg (zoomOf cfg f) = f"
proof -
  let ?a = "ln (zoom_factor_min cfg)" and ?b = "ln (zoom_factor_max cfg)"
  have d: "?a - ?b \<noteq> 0" using assms by simp
  have "ln (zoom_factor_min cfg / zoomOf cfg f) = ?a - (?a + (?b - ?a) * f)"
    using assms(1) by (simp add: zoomOf_def Let_def ln_divide_pos)
  also have "\<dots> = (?a - ?b) * f" by (simp add: algebra_simps)
  finally have num: "ln (zoom_factor_min cfg / zoomOf cfg f) = (?a - ?b) * f" .
  have den: "ln (zoom_factor_min cfg / zoom_factor_max cfg) = ?a - ?b"
    using assms by (simp add: ln_divide_pos)
  show ?thesis unfolding normalized_def num den using d by simp
qed

lemma interpolate_back:
  fixes a b l :: real
  assumes d: "a - b \<noteq> 0"
  shows "a + (b - a) * ((a - l) / (a - b)) = l"
proof -
  have c: "(a - b) * ((a - l) / (a - b)) = a - l" using d by simp
  have e: "b - a = - (a - b)" by simp
  have "(b - a) * ((a - l) / (a - b)) = - (a - l)"
    unfolding e mult_minus_left c ..
  then show ?thesis by simp
qed

lemma zoomOf_normalized:
  assumes "0 < zoom_factor_min cfg" "0 < zoom_factor_max cfg"
    and "zoom_factor_min cfg \<noteq> zoom_factor_max cfg" and "0 < z"
  shows "zoomOf cfg (normalized cfg z) = z"
proof -
  define a where "a = ln (zoom_factor_min cfg)"
  define b where "b = ln (zoom_factor_max cfg)"
  have d: "a - b \<noteq> 0" using assms by (simp add: a_def b_def)
  have n: "normalized cfg z = (a - ln z) / (a - b)"
    using assms by (simp add: normalized_def ln_divide_pos a_def b_def)
  have "a + (b - a) * normalized cfg z = ln z"
    unfolding n by (rule interpolate_back [OF d])
  then show ?thesis using assms(4) by (simp add: zoomOf_def Let_def a_def b_def)
qed

lemma scaleFactor_updateSceneRect [simp]:
  "scaleFactor (updateSceneRect tk v) = scaleFactor v"
  by (simp add: updateSceneRect_def Let_def setSceneRect_def)

lemma scaleFactor_updateScale [simp]:
  "scaleFactor (updateScale cfg tk v) = scaleFactor v"
  by (simp add: updateScale_def Let_def emit_def setTransform_def setTransformationAnchor_def)

lemma scaleFactor_setZoomValue [simp]:
  "scaleFactor (setZoomValue cfg tk z v) = normalized cfg z"
  by (simp add: setZoomValue_def)

lemma emitted_updateSceneRect [simp]:
  "emitted (updateSceneRect tk v) = emitted v"
  by (simp add: updateSceneRect_def Let_def setSceneRect_def)

lemma transform_updateSceneRect [simp]:
  "transform (widget (updateSceneRect tk v)) = transform (widget v)"
  by (simp add: updateSceneRect_def Let_def setSceneRect_def)

lemma emitted_updateScale:
  "emitted (updateScale cfg tk v) =
     emitted v @ [DebugLine (zoomOf cfg (scaleFactor v)), ZoomChanged (zoomOf cfg (scaleFactor v))]"
  by (simp add: updateScale_def Let_def emit_def setTransform_def setTransformationAnchor_def)

lemma transform_updateScale:
  "transform (widget (updateScale cfg tk v)) =
     QTransform_fromScale (zoomOf cfg (scaleFactor v)) (zoomOf cfg (scaleFactor v))"
  by (simp add: updateScale_def Let_def emit_def setTransform_def setTransformationAnchor_def)

text \<open>
  Claim C1. With positive and distinct zoom limits, the zoom that \<^verbatim>\<open>updateScale\<close>
  computes from a normalized factor and announces, handed back to \<^verbatim>\<open>setZoomValue\<close>,
  stores the factor it came from; this holds for every factor, those of the unit interval
  among them. And \<^verbatim>\<open>setZoomValue(1.0)\<close> followed by a recomputation sets the transform
  to the scale 1 and announces the zoom 1.
\<close>

theorem zoom_round_trip:
  assumes "0 < zoom_factor_min cfg" and "0 < zoom_factor_max cfg"
    and "zoom_factor_min cfg \<noteq> zoom_factor_max cfg"
  shows "last (emitted (updateScale cfg tk v)) = ZoomChanged (zoomOf cfg (scaleFactor v))
       \<and> normalized cfg (zoomOf cfg f) = f
       \<and> scaleFactor (setZoomValue cfg tk (zoomOf cfg (scaleFactor v)) (updateScale cfg tk v))
           = scaleFactor v
       \<and> zoomOf cfg (scaleFactor (setZoomValue cfg tk 1 v)) = 1
       \<and> last (emitted (updateScale cfg tk (setZoomValue cfg tk 1 v))) = ZoomChanged 1
       \<and> transform (widget (updateScale cfg tk (setZoomValue cfg tk 1 v)))
           = QTransform_fromScale 1 1"
proof -
  have one: "zoomOf cfg (normalized cfg 1) = 1"
    using assms by (simp add: zoomOf_normalized)
  have inv: "\<And>g. normalized cfg (zoomOf cfg g) = g"
    using assms by (rule normalized_zoomOf)
  show ?thesis
    by (simp add: emitted_updateScale transform_updateScale one inv)
qed

theorem zoom_round_trip_witness:
  "0 < zoom_factor_min demo_config \<and> 0 < zoom_factor_max demo_config
   \<and> zoom_factor_min demo_config \<noteq> zoom_factor_max demo_config
   \<and> normalized demo_config (zoomOf demo_config (1/2)) = 1/2
   \<and> scaleFactor (setZoomValue demo_config demo_toolkit
         (zoomOf demo_config (scaleFactor (demo_view (3/10))))
         (updateScale demo_config demo_toolkit (demo_view (3/10)))) = 3/10
   \<and> zoomOf demo_config (scaleFactor (setZoomValue demo_config demo_toolkit 1 (demo_view 0))) = 1"
proof -
  have h: "0 < zoom_factor_min demo_config" "0 < zoom_factor_max demo_config"
    "zoom_factor_min demo_config \<noteq> zoom_factor_max demo_config"
    by (simp_all add: demo_config_def)
  have sf: "scaleFactor (demo_view (3/10)) = 3/10" by (simp add: demo_view_def)
  show ?thesis
    using h zoom_round_trip [OF h, of demo_toolkit "demo_view (3/10)" "1/2"]
      zoom_round_trip [OF h, of demo_toolkit "demo_view 0" "1/2"]
    by (simp only: sf) simp
qed

section \<open>Zooming with the keyboard and with the wheel\<close>

lemma scaleFactor_key_plus:
  "controlModifier ev \<Longrightarrow> key ev = Key_Plus \<Longrightarrow>
   scaleFactor (keyPressEvent cfg tk scn ev v) = scaleFactor v + zoom_factor_step cfg"
  by (simp add: keyPressEvent_def)

lemma scaleFactor_wheel:
  "wheelControlModifier ev \<Longrightarrow>
   scaleFactor (wheelEvent cfg tk ev v) =
     qBound 0 (if angleDeltaY ev > 0 then scaleFactor v + zoom_factor_step cfg
               else if angleDeltaY ev < 0 then scaleFactor v - zoom_factor_step cfg
               else scaleFactor v) 1"
  by (simp add: wheelEvent_def Let_def)

lemma scaleFactor_wheel_in:
  "wheelControlModifier ev \<Longrightarrow> 0 < angleDeltaY ev \<Longrightarrow>
   scaleFactor (wheelEvent cfg tk ev v) = max 0 (min 1 (scaleFactor v + zoom_factor_step cfg))"
  by (simp add: scaleFactor_wheel qBound_def)

lemma scaleFactor_key_plus_funpow:
  assumes "controlModifier ev" and "key ev = Key_Plus"
  shows "scaleFactor ((keyPressEvent cfg tk scn ev ^^ n) v)
         = scaleFactor v + real n * zoom_factor_step cfg"
proof (induction n)
  case 0
  show ?case by simp
next
  case (Suc n)
  then show ?case
    by (simp add: scaleFactor_key_plus [OF assms] algebra_simps)
qed

lemma scaleFactor_wheel_in_funpow_le:
  assumes "wheelControlModifier ev" and "0 < angleDeltaY ev"
    and "scaleFactor v \<le> 1"
  shows "scaleFactor ((wheelEvent cfg tk ev ^^ n) v) \<le> 1"
proof (cases n)
  case 0
  then show ?thesis using assms(3) by simp
next
  case (Suc k)
  then show ?thesis by (simp add: scaleFactor_wheel_in [OF assms(1,2)])
qed

text \<open>
  Claim C3. With a step that is not negative: a zoom-in from the keyboard adds the step
  and does not clamp, so \<open>n\<close> of them add \<open>n\<close> steps; a zoom-in from the wheel always
  leaves a factor between 0 and 1, whatever the factor was, and, from a factor of at
  most 1, never lowers it, also when repeated.
\<close>

theorem zoomIn_monotone:
  assumes step: "0 \<le> zoom_factor_step cfg"
    and kev: "controlModifier kev" "key kev = Key_Plus"
    and wev: "wheelControlModifier wev" "0 < angleDeltaY wev"
  shows "scaleFactor v \<le> scaleFactor (keyPressEvent cfg tk scn kev v)
       \<and> scaleFactor ((keyPressEvent cfg tk scn kev ^^ n) v)
           = scaleFactor v + real n * zoom_factor_step cfg
       \<and> 0 \<le> scaleFactor (wheelEvent cfg tk wev v)
       \<and> scaleFactor (wheelEvent cfg tk wev v) \<le> 1
       \<and> (scaleFactor v \<le> 1 \<longrightarrow>
            scaleFactor v \<le> scaleFactor (wheelEvent cfg tk wev v)
          \<and> scaleFactor ((wheelEvent cfg tk wev ^^ n) v)
              \<le> scaleFactor ((wheelEvent cfg tk wev ^^ Suc n) v)
          \<and> scaleFactor ((wheelEvent cfg tk wev ^^ Suc n) v) \<le> 1)"
proof -
  have k1: "scaleFactor v \<le> scaleFactor (keyPressEvent cfg tk scn kev v)"
    using step by (simp add: scaleFactor_key_plus [OF kev])
  have w0: "0 \<le> scaleFactor (wheelEvent cfg tk wev v)"
    by (simp add: scaleFactor_wheel_in [OF wev])
  have w1: "\<And>u. scaleFactor (wheelEvent cfg tk wev u) \<le> 1"
    by (simp add: scaleFactor_wheel_in [OF wev])
  have w2: "\<And>u. scaleFactor u \<le> 1 \<Longrightarrow> scaleFactor u \<le> scaleFactor (wheelEvent cfg tk wev u)"
    using step by (simp add: scaleFactor_wheel_in [OF wev] max_def min_def)
  have w3: "scaleFactor v \<le> 1 \<Longrightarrow>
      scaleFactor ((wheelEvent cfg tk wev ^^ n) v) \<le> scaleFactor ((wheelEvent cfg tk wev ^^ Suc n) v)"
    using w2 [OF scaleFactor_wheel_in_funpow_le [OF wev, where v = v and cfg = cfg and tk = tk and n = n]]
    by simp
  show ?thesis
    using k1 w0 w1 w2 w3 by (simp add: scaleFactor_key_plus_funpow [OF kev])
qed

theorem zoomIn_monotone_witness:
  "0 \<le> zoom_factor_step demo_config
   \<and> scaleFactor ((keyPressEvent demo_config demo_toolkit (demo_scene [] [])
          \<lparr>controlModifier = True, key = Key_Plus\<rparr> ^^ 3) (demo_view (9/10)))
       = 9/10 + 3 * zoom_factor_step demo_config
   \<and> scaleFactor (demo_view (9/10)) \<le> 1
   \<and> scaleFactor (demo_view (9/10))
       \<le> scaleFactor (wheelEvent demo_config demo_toolkit
            \<lparr>wheelControlModifier = True, angleDeltaY = 120\<rparr> (demo_view (9/10)))
   \<and> scaleFactor ((wheelEvent demo_config demo_toolkit
          \<lparr>wheelControlModifier = True, angleDeltaY = 120\<rparr> ^^ Suc 3) (demo_view (9/10))) \<le> 1"
proof -
  have step: "0 \<le> zoom_factor_step demo_config" by (simp add: demo_config_def)
  have sf: "scaleFactor (demo_view (9/10)) = 9/10" by (simp add: demo_view_def)
  have le: "scaleFactor (demo_view (9/10)) \<le> 1" by (simp add: sf)
  show ?thesis
    using step le
      zoomIn_monotone [OF step, where kev = "\<lparr>controlModifier = True, key = Key_Plus\<rparr>"
        and wev = "\<lparr>wheelControlModifier = True, angleDeltaY = 120\<rparr>"
        and v = "demo_view (9/10)" and tk = demo_toolkit and scn = "demo_scene [] []" and n = 3]
    by (simp add: sf)
qed

text \<open>
  Claim C2. The invariant does not hold on the keyboard path: at the factor 1, inside
  the unit interval, Ctrl and Plus store 11/10, where the same step on the wheel stores 1.
\<close>

theorem keyboard_zoomIn_leaves_unit_interval:
  "0 \<le> scaleFactor (demo_view 1) \<and> scaleFactor (demo_view 1) \<le> 1
   \<and> scaleFactor (keyPressEvent demo_config demo_toolkit (demo_scene [] [])
         \<lparr>controlModifier = True, key = Key_Plus\<rparr> (demo_view 1)) = 11/10
   \<and> scaleFactor (wheelEvent demo_config demo_toolkit
         \<lparr>wheelControlModifier = True, angleDeltaY = 120\<rparr> (demo_view 1)) = 1"
  by (simp add: scaleFactor_key_plus scaleFactor_wheel_in demo_view_def demo_config_def)

section \<open>Keys that act on the scene\<close>

lemma pushItemRemoves_calls:
  "pushItemRemoves s xs v =
     v\<lparr>sceneCalls := sceneCalls v @ map (\<lambda>item. (s, UndoStack_push (ItemRemove s item))) xs\<rparr>"
  by (induction xs arbitrary: v) (simp_all add: callScene_def)

text \<open>
  Claim C6. With a scene attached and in its normal mode, the Delete key, with or without
  Ctrl, changes nothing but the requests sent to the scene: behind the earlier ones come
  one push of a remove command per selected top-level item, in the order of the
  selection, so as many as there are selected items.
\<close>

theorem delete_pushes_one_remove_per_item:
  assumes "scene v = Some s" and "scene_mode (scn s) = Scene_NormalMode"
    and "key ev = Key_Delete"
  shows "keyPressEvent cfg tk scn ev v =
           v\<lparr>sceneCalls := sceneCalls v @
               map (\<lambda>item. (s, UndoStack_push (ItemRemove s item)))
                 (selectedTopLevelItems (scn s))\<rparr>
       \<and> length (sceneCalls (keyPressEvent cfg tk scn ev v))
           = length (sceneCalls v) + length (selectedTopLevelItems (scn s))"
  using assms
  by (simp add: keyPressEvent_def keyPressEvent_plain_def pushItemRemoves_calls)

theorem delete_pushes_one_remove_per_item_witness:
  "scene (demo_view 0\<lparr>scene := Some 7\<rparr>) = Some 7
   \<and> scene_mode (demo_scene [4, 2, 9] [] 7) = Scene_NormalMode
   \<and> sceneCalls (keyPressEvent demo_config demo_toolkit (demo_scene [4, 2, 9] [])
         \<lparr>controlModifier = False, key = Key_Delete\<rparr> (demo_view 0\<lparr>scene := Some 7\<rparr>))
       = [(7, UndoStack_push (ItemRemove 7 4)), (7, UndoStack_push (ItemRemove 7 2)),
          (7, UndoStack_push (ItemRemove 7 9))]"
proof -
  have a: "scene (demo_view 0\<lparr>scene := Some 7\<rparr>) = Some 7" by simp
  have b: "scene_mode (demo_scene [4, 2, 9] [] 7) = Scene_NormalMode"
    by (simp add: demo_scene_def)
  have c: "key \<lparr>controlModifier = False, key = Key_Delete\<rparr> = Key_Delete" by simp
  show ?thesis
    using a b c
      delete_pushes_one_remove_per_item [where v = "demo_view 0\<lparr>scene := Some 7\<rparr>"
        and s = 7 and scn = "demo_scene [4, 2, 9] []" and cfg = demo_config
        and tk = demo_toolkit and ev = "\<lparr>controlModifier = False, key = Key_Delete\<rparr>"]
    by (simp add: demo_scene_def demo_view_def)
qed

text \<open>
  Claim C9. Without a scene, Ctrl+W, Ctrl+Space, Escape, Delete and \<^verbatim>\<open>fitInView\<close> return
  the state they were given: no request to a scene, no signal, no member changed.
  Backspace, which removes a wire point only when a scene in wire mode is attached, is
  handed to the base class as any unhandled key is; the members of the view, its
  connections, its signals and the requests to scenes stay as they were.
\<close>

theorem no_scene_no_op:
  assumes "scene v = None"
  shows "(controlModifier ev \<and> (key ev = Key_W \<or> key ev = Key_Space)
            \<or> key ev = Key_Escape \<or> key ev = Key_Delete
          \<longrightarrow> keyPressEvent cfg tk scn ev v = v)
       \<and> (key ev = Key_Backspace \<longrightarrow>
            keyPressEvent cfg tk scn ev v = v\<lparr>widget := QGraphicsView_keyPressEvent tk ev (widget v)\<rparr>
          \<and> sceneCalls (keyPressEvent cfg tk scn ev v) = sceneCalls v)
       \<and> fitInView cfg tk scn v = v"
  using assms
  by (auto simp add: keyPressEvent_def keyPressEvent_plain_def fitInView_def baseClass_def)

theorem no_scene_no_op_witness:
  "scene (demo_view (1/2)) = None
   \<and> keyPressEvent demo_config demo_toolkit (demo_scene [4] [])
        \<lparr>controlModifier = False, key = Key_Delete\<rparr> (demo_view (1/2)) = demo_view (1/2)
   \<and> fitInView demo_config demo_toolkit (demo_scene [4] []) (demo_view (1/2)) = demo_view (1/2)"
proof -
  have a: "scene (demo_view (1/2)) = None" by (simp add: demo_view_def)
  show ?thesis
    using a no_scene_no_op [OF a, where ev = "\<lparr>controlModifier = False, key = Key_Delete\<rparr>"
        and cfg = demo_config and tk = demo_toolkit and scn = "demo_scene [4] []"]
    by simp
qed

section \<open>Panning\<close>

lemma demo_toolkit_fields:
  "mapToScene demo_toolkit wd p =
     ((real_of_int (fst p) - m31 (transform wd)) / m11 (transform wd),
      (real_of_int (snd p) - m32 (transform wd)) / m22 (transform wd))"
  "viewportRectInScene demo_toolkit = demo_visible"
  "viewportGeometryWidth demo_toolkit wd = 800"
  "viewportGeometryInScene demo_toolkit = demo_visible"
  "QGraphicsView_fitInView demo_toolkit = demo_fit"
  "QGraphicsView_setScene demo_toolkit sc wd = wd"
  "QGraphicsView_keyPressEvent demo_toolkit kev wd = wd"
  "QGraphicsView_mouseMoveEvent demo_toolkit mev wd = wd"
  "QGraphicsView_mousePressEvent demo_toolkit mev wd = wd"
  "QGraphicsView_mouseReleaseEvent demo_toolkit mev wd = wd"
  by (simp_all add: demo_toolkit_def)

lemma mode_updateSceneRect [simp]: "mode (updateSceneRect tk v) = mode v"
  by (simp add: updateSceneRect_def Let_def setSceneRect_def)

lemma panStart_updateSceneRect [simp]: "panStart (updateSceneRect tk v) = panStart v"
  by (simp add: updateSceneRect_def Let_def setSceneRect_def)

text \<open>
  Claim C8. A press of the middle button sets the mode to Pan and stores the pressed
  pixel as the anchor. A move in Pan mode, after the base class has seen the event,
  translates the transform by the difference of the scene positions of the pointer's
  pixel and of the anchor's pixel, stores the pointer position as the new anchor and
  stays in Pan mode; a move in Normal mode only reaches the base class. A release of the
  middle button sets the mode to Normal.
\<close>

theorem pan_gesture:
  assumes "button pev = MiddleButton" and "button rel = MiddleButton"
  shows "mode (mousePressEvent tk pev v) = PanMode
       \<and> panStart (mousePressEvent tk pev v) = QPoint_toPointF (pos pev)
       \<and> (mode u = PanMode \<longrightarrow>
            transform (widget (mouseMoveEvent tk mev u))
              = QTransform_translate
                  (fst (mapToScene tk (QGraphicsView_mouseMoveEvent tk mev (widget u)) (pos mev))
                   - fst (mapToScene tk (QGraphicsView_mouseMoveEvent tk mev (widget u))
                            (QPointF_toPoint (panStart u))))
                  (snd (mapToScene tk (QGraphicsView_mouseMoveEvent tk mev (widget u)) (pos mev))
                   - snd (mapToScene tk (QGraphicsView_mouseMoveEvent tk mev (widget u))
                            (QPointF_toPoint (panStart u))))
                  (transform (QGraphicsView_mouseMoveEvent tk mev (widget u)))
          \<and> panStart (mouseMoveEvent tk mev u) = position mev
          \<and> mode (mouseMoveEvent tk mev u) = PanMode)
       \<and> (mode u = NormalMode \<longrightarrow>
            mouseMoveEvent tk mev u = u\<lparr>widget := QGraphicsView_mouseMoveEvent tk mev (widget u)\<rparr>)
       \<and> mode (mouseReleaseEvent tk rel w) = NormalMode"
  using assms
  by (simp add: mousePressEvent_def mouseReleaseEvent_def mouseMoveEvent_def panDelta_def
      setMode_def emit_def setCursor_def setTransform_def setTransformationAnchor_def
      baseClass_def Let_def)

theorem pan_gesture_witness:
  "button \<lparr>button = MiddleButton, position = (100, 100)\<rparr> = MiddleButton
   \<and> mode (mousePressEvent demo_toolkit \<lparr>button = MiddleButton, position = (100, 100)\<rparr>
         (demo_view 0)) = PanMode
   \<and> transform (widget (mouseMoveEvent demo_toolkit \<lparr>button = NoButton, position = (130, 90)\<rparr>
         (mousePressEvent demo_toolkit \<lparr>button = MiddleButton, position = (100, 100)\<rparr>
            (demo_view 0))))
       = \<lparr>m11 = 1, m12 = 0, m21 = 0, m22 = 1, m31 = 30, m32 = - 10\<rparr>
   \<and> mode (mouseReleaseEvent demo_toolkit \<lparr>button = MiddleButton, position = (130, 90)\<rparr>
         (mouseMoveEvent demo_toolkit \<lparr>button = NoButton, position = (130, 90)\<rparr>
            (mousePressEvent demo_toolkit \<lparr>button = MiddleButton, position = (100, 100)\<rparr>
               (demo_view 0)))) = NormalMode"
proof -
  let ?p = "\<lparr>button = MiddleButton, position = (100, 100)\<rparr>"
  let ?m = "\<lparr>button = NoButton, position = (130, 90)\<rparr>"
  let ?r = "\<lparr>button = MiddleButton, position = (130, 90)\<rparr>"
  have a: "button ?p = MiddleButton" and b: "button ?r = MiddleButton" by simp_all
  have q: "qRound 100 = 100" "qRound 130 = 130" "qRound 90 = 90"
    by (simp_all add: qRound_def toInt_def)
  have w: "widget (mousePressEvent demo_toolkit ?p (demo_view 0))
           = demo_widget\<lparr>viewportCursor := ClosedHandCursor\<rparr>"
    by (simp add: mousePressEvent_def setMode_def emit_def setCursor_def demo_view_def Let_def)
  have ps: "panStart (mousePressEvent demo_toolkit ?p (demo_view 0)) = (100, 100)"
    by (simp add: mousePressEvent_def setMode_def emit_def setCursor_def demo_view_def Let_def
        pos_def QPointF_toPoint_def QPoint_toPointF_def q)
  have pm: "mode (mousePressEvent demo_toolkit ?p (demo_view 0)) = PanMode"
    by (simp add: mousePressEvent_def setMode_def emit_def setCursor_def Let_def)
  show ?thesis
    using a pm
      pan_gesture [OF a b, where tk = demo_toolkit and v = "demo_view 0" and mev = ?m
        and u = "mousePressEvent demo_toolkit ?p (demo_view 0)"
        and w = "mouseMoveEvent demo_toolkit ?m (mousePressEvent demo_toolkit ?p (demo_view 0))"]
    by (simp add: w ps demo_toolkit_fields demo_widget_def QTransform_translate_def
        QTransform_fromScale_def pos_def QPointF_toPoint_def QPoint_toPointF_def q)
qed

section \<open>Attaching scenes\<close>

lemma connections_setScene:
  "connections (setScene tk sc v) =
     (case sc of Some s \<Rightarrow> connections v @ [s] | None \<Rightarrow> connections v)"
  by (simp add: setScene_def baseClass_def Let_def split: option.split)

lemma cursor_after_slots:
  assumes "s \<in> set cs" and "m = Scene_NormalMode \<or> m = Scene_WireMode"
  shows "viewportCursor (widget (fold (\<lambda>c u. if c = s then modeChanged_slot m u else u) cs v))
         = (if m = Scene_NormalMode then ArrowCursor else CrossCursor)"
  using assms(1)
proof (induction cs rule: rev_induct)
  case Nil
  then show ?case by simp
next
  case (snoc x xs)
  show ?case
  proof (cases "x = s")
    case True
    then show ?thesis
      using assms(2) by (auto simp add: modeChanged_slot_def setCursor_def)
  next
    case False
    with snoc show ?thesis by simp
  qed
qed

lemma cursor_after_modeChanged:
  assumes "s \<in> set (connections v)" and "m = Scene_NormalMode \<or> m = Scene_WireMode"
  shows "viewportCursor (widget (Scene_modeChanged s m v))
         = (if m = Scene_NormalMode then ArrowCursor else CrossCursor)"
  unfolding Scene_modeChanged_def by (rule cursor_after_slots [OF assms])

text \<open>
  Claim C10. \<^verbatim>\<open>setScene\<close> with a scene puts one connection behind those made before,
  and with no scene leaves them as they are; in both cases every earlier connection is
  still there. So after a first and then a second scene have been attached, a change of
  the first scene's mode to wire or normal mode still sets the cursor of the viewport.
\<close>

theorem setScene_keeps_connections:
  shows "connections (setScene tk (Some s) v) = connections v @ [s]
       \<and> connections (setScene tk None v) = connections v
       \<and> (\<forall>c \<in> set (connections v). c \<in> set (connections (setScene tk sc v)))
       \<and> viewportCursor (widget (Scene_modeChanged s1 Scene_WireMode
             (setScene tk (Some s2) (setScene tk (Some s1) v)))) = CrossCursor
       \<and> viewportCursor (widget (Scene_modeChanged s1 Scene_NormalMode
             (setScene tk (Some s2) (setScene tk (Some s1) v)))) = ArrowCursor"
proof -
  have m: "s1 \<in> set (connections (setScene tk (Some s2) (setScene tk (Some s1) v)))"
    by (simp add: connections_setScene)
  have k: "\<forall>c \<in> set (connections v). c \<in> set (connections (setScene tk sc v))"
    by (simp add: connections_setScene split: option.split)
  show ?thesis
    using k by (simp add: connections_setScene cursor_after_modeChanged [OF m])
qed

theorem setScene_keeps_connections_witness:
  "connections (setScene demo_toolkit (Some 2) (setScene demo_toolkit (Some 1) (demo_view 0)))
     = [1, 2]
   \<and> viewportCursor (widget (Scene_modeChanged 1 Scene_WireMode
         (setScene demo_toolkit (Some 2) (setScene demo_toolkit (Some 1) (demo_view 0)))))
       = CrossCursor"
  using setScene_keeps_connections [where tk = demo_toolkit and s = 2
      and v = "setScene demo_toolkit (Some 1) (demo_view 0)"]
    setScene_keeps_connections [where tk = demo_toolkit and s = 1 and v = "demo_view 0"
      and ?s1.0 = 1 and ?s2.0 = 2]
  by (simp add: demo_view_def)

section \<open>Fitting the scene into the view\<close>

lemma scaleFactor_fitInView:
  assumes "scene v = Some s"
  shows "scaleFactor (fitInView cfg tk scn v) =
     normalized cfg (cappedScale (scaleFactor v)
       (measuredScale tk (v\<lparr>widget := QGraphicsView_fitInView tk (fitRect cfg (items (scn s))) (widget v)\<rparr>)))"
  using assms by (simp add: fitInView_def Let_def baseClass_def)

lemma fitRect_empty:
  "fitRect cfg [] =
     \<lparr>rf_x = - max 0 (fitall_padding cfg), rf_y = - max 0 (fitall_padding cfg),
      rf_w = 2 * max 0 (fitall_padding cfg), rf_h = 2 * max 0 (fitall_padding cfg)\<rparr>"
  by (simp add: fitRect_def itemsRect_def QRectF_adjust_def QRectF_null_def Let_def)

text \<open>
  Claim C4, as the code has it. With a scene attached that holds no item,
  \<^verbatim>\<open>fitInView\<close> is not a no-op: the base class is asked to fit the square that the
  padding alone spans, the scale measured afterwards is capped (at 1 when the stored
  factor is below 1, at the stored factor otherwise) and handed to \<^verbatim>\<open>setZoomValue\<close>,
  which stores its normalization and recomputes the transform. No error is possible.
\<close>

theorem fitInView_empty_scene:
  assumes "scene v = Some s" and "items (scn s) = []"
  shows "fitInView cfg tk scn v =
           setZoomValue cfg tk
             (cappedScale (scaleFactor v)
                (measuredScale tk (v\<lparr>widget := QGraphicsView_fitInView tk (fitRect cfg []) (widget v)\<rparr>)))
             (v\<lparr>widget := QGraphicsView_fitInView tk (fitRect cfg []) (widget v)\<rparr>)
       \<and> fitRect cfg [] =
           \<lparr>rf_x = - max 0 (fitall_padding cfg), rf_y = - max 0 (fitall_padding cfg),
            rf_w = 2 * max 0 (fitall_padding cfg), rf_h = 2 * max 0 (fitall_padding cfg)\<rparr>
       \<and> scaleFactor (fitInView cfg tk scn v) =
           normalized cfg (cappedScale (scaleFactor v)
             (measuredScale tk (v\<lparr>widget := QGraphicsView_fitInView tk (fitRect cfg []) (widget v)\<rparr>)))"
  using assms by (simp add: fitInView_def Let_def baseClass_def fitRect_empty)

text \<open>
  In the concrete view the fitted padding square measures a scale of 299/20.
\<close>

lemma demo_fit_empty:
  "measuredScale demo_toolkit
     (demo_view f\<lparr>scene := Some 7,
        widget := QGraphicsView_fitInView demo_toolkit (fitRect demo_config []) (widget (demo_view f))\<rparr>)
   = 299/20"
  by (simp add: measuredScale_def demo_toolkit_fields demo_fit_def demo_visible_def fitRect_empty
      demo_config_def QRectF_isNull_def QTransform_fromScale_def demo_view_def Let_def)

text \<open>
  The claim as it was stated fails: at the stored factor 0, on an attached scene without
  items, \<^verbatim>\<open>fitInView\<close> stores another factor.
\<close>

theorem fitInView_empty_scene_counterexample:
  "scene (demo_view 0\<lparr>scene := Some 7\<rparr>) = Some 7 \<and> items (demo_scene [] [] 7) = []
   \<and> scaleFactor (fitInView demo_config demo_toolkit (demo_scene [] []) (demo_view 0\<lparr>scene := Some 7\<rparr>))
       \<noteq> scaleFactor (demo_view 0\<lparr>scene := Some 7\<rparr>)"
proof -
  have a: "scene (demo_view 0\<lparr>scene := Some 7\<rparr>) = Some 7" by simp
  have b: "items (demo_scene [] [] 7) = []" by (simp add: demo_scene_def)
  have "scaleFactor (fitInView demo_config demo_toolkit (demo_scene [] []) (demo_view 0\<lparr>scene := Some 7\<rparr>))
        = normalized demo_config 1"
    by (simp add: scaleFactor_fitInView [OF a] b demo_fit_empty cappedScale_def)
       (simp add: demo_view_def)
  moreover have "normalized demo_config 1 \<noteq> 0"
    by (simp add: normalized_def demo_config_def)
  ultimately show ?thesis using a b by (simp add: demo_view_def)
qed

theorem fitInView_empty_scene_witness:
  "scene (demo_view 0\<lparr>scene := Some 7\<rparr>) = Some 7 \<and> items (demo_scene [] [] 7) = []
   \<and> scaleFactor (fitInView demo_config demo_toolkit (demo_scene [] []) (demo_view 0\<lparr>scene := Some 7\<rparr>))
       = normalized demo_config 1"
proof -
  have a: "scene (demo_view 0\<lparr>scene := Some 7\<rparr>) = Some 7" by simp
  have b: "items (demo_scene [] [] 7) = []" by (simp add: demo_scene_def)
  have c: "cappedScale (scaleFactor (demo_view 0)) (299/20) = 1"
    by (simp add: cappedScale_def demo_view_def)
  show ?thesis
    using a b fitInView_empty_scene [where v = "demo_view 0\<lparr>scene := Some 7\<rparr>" and s = 7
        and scn = "demo_scene [] []" and cfg = demo_config and tk = demo_toolkit]
    by (simp add: demo_fit_empty c)
qed

lemma ln3: "1 \<le> ln (3::real)"
proof -
  have "exp 1 \<le> exp (ln (3::real))" using exp_le by simp
  then show ?thesis by (simp only: exp_le_cancel_iff)
qed

lemma zoomOf_ge_factor:
  assumes "0 < zoom_factor_min cfg" and "1 \<le> zoom_factor_max cfg"
    and "3 * zoom_factor_min cfg \<le> zoom_factor_max cfg" and "1 \<le> f"
  shows "f \<le> zoomOf cfg f"
proof -
  define a where "a = ln (zoom_factor_min cfg)"
  define b where "b = ln (zoom_factor_max cfg)"
  have b0: "0 \<le> b" using assms(2) by (simp add: b_def)
  have "ln 3 + a = ln (3 * zoom_factor_min cfg)"
    using assms(1) by (simp add: a_def ln_mult_pos)
  also have "\<dots> \<le> b" unfolding b_def using assms(1,3) by (intro ln_mono) auto
  finally have d: "1 \<le> b - a" using ln3 by linarith
  have "(f - 1) * 1 \<le> (f - 1) * (b - a)"
    using d assms(4) by (intro mult_left_mono) auto
  then have e: "f - 1 \<le> b + (b - a) * (f - 1)" using b0 by (simp add: mult.commute)
  have "a + (b - a) * f = b + (b - a) * (f - 1)" by (simp add: algebra_simps)
  then have z: "zoomOf cfg f = exp (b + (b - a) * (f - 1))"
    by (simp add: zoomOf_def Let_def a_def b_def)
  have "f = 1 + (f - 1)" by simp
  also have "\<dots> \<le> exp (f - 1)" by (rule exp_ge_add_one_self)
  also have "\<dots> \<le> exp (b + (b - a) * (f - 1))" using e by simp
  finally show ?thesis unfolding z .
qed

lemma zoomOf_one: "0 < zoom_factor_max cfg \<Longrightarrow> zoomOf cfg 1 = zoom_factor_max cfg"
  by (simp add: zoomOf_def Let_def)

text \<open>
  Claim C5. Let the zoom limits be positive and distinct, let the scale measured after
  the fit be positive, and let the stored factor be at most 1 or else the limits satisfy
  \<open>1 \<le> zoom_factor_max\<close> and \<open>3 * zoom_factor_min \<le> zoom_factor_max\<close>. Then after
  \<^verbatim>\<open>fitInView\<close> the zoom is at most 1 if it was below 1 before, and at most the
  previous zoom if that was above 1.
\<close>

theorem fitInView_caps_zoom:
  assumes lim: "0 < zoom_factor_min cfg" "0 < zoom_factor_max cfg"
      "zoom_factor_min cfg \<noteq> zoom_factor_max cfg"
    and range: "scaleFactor v \<le> 1
      \<or> (1 \<le> zoom_factor_max cfg \<and> 3 * zoom_factor_min cfg \<le> zoom_factor_max cfg)"
    and meas: "\<And>s. scene v = Some s \<Longrightarrow>
      0 < measuredScale tk
            (v\<lparr>widget := QGraphicsView_fitInView tk (fitRect cfg (items (scn s))) (widget v)\<rparr>)"
  shows "(zoomOf cfg (scaleFactor v) < 1 \<longrightarrow> zoomOf cfg (scaleFactor (fitInView cfg tk scn v)) \<le> 1)
       \<and> (1 < zoomOf cfg (scaleFactor v) \<longrightarrow>
            zoomOf cfg (scaleFactor (fitInView cfg tk scn v)) \<le> zoomOf cfg (scaleFactor v))"
proof (cases "scene v")
  case None
  then show ?thesis by (simp add: fitInView_def)
next
  case (Some s)
  define f where "f = scaleFactor v"
  define m where "m = measuredScale tk
            (v\<lparr>widget := QGraphicsView_fitInView tk (fitRect cfg (items (scn s))) (widget v)\<rparr>)"
  define c where "c = cappedScale f m"
  have mpos: "0 < m" unfolding m_def by (rule meas [OF Some])
  have cpos: "0 < c" using mpos by (simp add: c_def cappedScale_def)
  have sf: "scaleFactor (fitInView cfg tk scn v) = normalized cfg c"
    unfolding c_def f_def m_def by (rule scaleFactor_fitInView [OF Some])
  have z: "zoomOf cfg (scaleFactor (fitInView cfg tk scn v)) = c"
    unfolding sf by (rule zoomOf_normalized [OF lim cpos])
  have small: "f < 1 \<Longrightarrow> c \<le> 1" by (simp add: c_def cappedScale_def)
  have big: "1 \<le> f \<Longrightarrow> c \<le> f" by (simp add: c_def cappedScale_def)
  have ge: "1 \<le> f \<Longrightarrow> (f = 1 \<and> zoomOf cfg f = zoom_factor_max cfg) \<or> f \<le> zoomOf cfg f"
    using range lim(1,2) zoomOf_ge_factor [of cfg f] zoomOf_one [of cfg]
    unfolding f_def by auto
  have one: "zoomOf cfg f < 1 \<longrightarrow> c \<le> 1"
    using small big ge by (cases "f < 1") auto
  have two: "1 < zoomOf cfg f \<longrightarrow> c \<le> zoomOf cfg f"
    using small big ge by (cases "f < 1") auto
  show ?thesis using one two unfolding z f_def by simp
qed


theorem fitInView_caps_zoom_witness:
  "0 < zoom_factor_min demo_config \<and> 0 < zoom_factor_max demo_config
   \<and> zoom_factor_min demo_config \<noteq> zoom_factor_max demo_config
   \<and> 1 \<le> zoom_factor_max demo_config
   \<and> 3 * zoom_factor_min demo_config \<le> zoom_factor_max demo_config
   \<and> zoomOf demo_config (scaleFactor (demo_view 0\<lparr>scene := Some 7\<rparr>)) < 1
   \<and> zoomOf demo_config (scaleFactor (fitInView demo_config demo_toolkit (demo_scene [] [])
         (demo_view 0\<lparr>scene := Some 7\<rparr>))) \<le> 1
   \<and> 1 < zoomOf demo_config (scaleFactor (demo_view 1\<lparr>scene := Some 7\<rparr>))
   \<and> zoomOf demo_config (scaleFactor (fitInView demo_config demo_toolkit (demo_scene [] [])
         (demo_view 1\<lparr>scene := Some 7\<rparr>)))
       \<le> zoomOf demo_config (scaleFactor (demo_view 1\<lparr>scene := Some 7\<rparr>))"
proof -
  have lim: "0 < zoom_factor_min demo_config" "0 < zoom_factor_max demo_config"
    "zoom_factor_min demo_config \<noteq> zoom_factor_max demo_config"
    by (simp_all add: demo_config_def)
  have con: "1 \<le> zoom_factor_max demo_config"
    "3 * zoom_factor_min demo_config \<le> zoom_factor_max demo_config"
    by (simp_all add: demo_config_def)
  have range: "\<And>f. scaleFactor (demo_view f\<lparr>scene := Some 7\<rparr>) \<le> 1
      \<or> (1 \<le> zoom_factor_max demo_config
         \<and> 3 * zoom_factor_min demo_config \<le> zoom_factor_max demo_config)"
    using con by simp
  have meas: "\<And>f s. scene (demo_view f\<lparr>scene := Some 7\<rparr>) = Some s \<Longrightarrow>
      0 < measuredScale demo_toolkit
            (demo_view f\<lparr>scene := Some 7\<rparr>
               \<lparr>widget := QGraphicsView_fitInView demo_toolkit
                  (fitRect demo_config (items (demo_scene [] [] s)))
                  (widget (demo_view f\<lparr>scene := Some 7\<rparr>))\<rparr>)"
    by (simp add: demo_scene_def demo_fit_empty)
  have lo: "zoomOf demo_config (scaleFactor (demo_view 0\<lparr>scene := Some 7\<rparr>)) < 1"
    by (simp add: zoomOf_def demo_view_def demo_config_def)
  have hi: "1 < zoomOf demo_config (scaleFactor (demo_view 1\<lparr>scene := Some 7\<rparr>))"
    by (simp add: zoomOf_def demo_view_def demo_config_def)
  show ?thesis
    using lim con lo hi
      fitInView_caps_zoom [where cfg = demo_config and tk = demo_toolkit
        and scn = "demo_scene [] []" and v = "demo_view 0\<lparr>scene := Some 7\<rparr>",
        OF lim range [of 0] meas [of 0]]
      fitInView_caps_zoom [where cfg = demo_config and tk = demo_toolkit
        and scn = "demo_scene [] []" and v = "demo_view 1\<lparr>scene := Some 7\<rparr>",
        OF lim range [of 1] meas [of 1]]
    by blast
qed

section \<open>The scene rectangle\<close>

lemma int32_id: "- 2147483648 \<le> i \<Longrightarrow> i \<le> 2147483647 \<Longrightarrow> int32 i = i"
  by (simp add: int32_def)

lemma toInt_fits:
  "- 2147483649 < d \<Longrightarrow> d < 2147483648 \<Longrightarrow> toInt d = (if d \<ge> 0 then \<lfloor>d\<rfloor> else \<lceil>d\<rceil>)"
  by (simp add: toInt_def)

lemma qRound_fits:
  assumes "\<bar>d\<bar> \<le> 2147483647"
  shows "qRound d = (if d \<ge> 0 then \<lfloor>d + 1/2\<rfloor> else \<lceil>d - 1/2\<rceil>)"
proof (cases "d \<ge> 0")
  case True
  then have "- 2147483649 < d + 1/2" "d + 1/2 < 2147483648" using assms by argo+
  then show ?thesis using True by (simp add: qRound_def toInt_fits)
next
  case False
  then have "- 2147483649 < d - 1/2" "d - 1/2 < 2147483648" using assms by argo+
  then show ?thesis using False by (simp add: qRound_def toInt_fits)
qed

lemma qRound_upper: "\<bar>d\<bar> \<le> 2147483647 \<Longrightarrow> real_of_int (qRound d) \<le> d + 1/2"
  unfolding qRound_fits by (auto; linarith)

lemma qRound_lower: "\<bar>d\<bar> \<le> 2147483647 \<Longrightarrow> d - 1/2 \<le> real_of_int (qRound d)"
  unfolding qRound_fits by (auto; linarith)

lemma qRound_of_int: "\<bar>n\<bar> \<le> 2147483647 \<Longrightarrow> qRound (real_of_int n) = n"
proof -
  assume a: "\<bar>n\<bar> \<le> 2147483647"
  then have "\<bar>real_of_int n\<bar> \<le> 2147483647" by linarith
  then have "qRound (real_of_int n)
      = (if real_of_int n \<ge> 0 then \<lfloor>real_of_int n + 1/2\<rfloor> else \<lceil>real_of_int n - 1/2\<rceil>)"
    by (rule qRound_fits)
  then show ?thesis by (auto split: if_splits; linarith)
qed

text \<open>
  One coordinate of a rounded rectangle: for a corner and a size of moderate absolute
  value, the rounded corner \<open>nx\<close> and the rounded size \<open>nw\<close> are within a half of what
  they round, and nothing overflows.
\<close>

lemma round_1d:
  fixes X W :: real
  assumes "\<bar>X\<bar> \<le> 1073741000" and "\<bar>W\<bar> \<le> 1073741000"
    and nx_def: "nx = qRound X"
    and nw_def: "nw = qRound (W + (X - real_of_int nx) / 2)"
  shows "real_of_int nx \<le> X + 1/2" and "X - 1/2 \<le> real_of_int nx"
    and "real_of_int nw \<le> W + (X - real_of_int nx) / 2 + 1/2"
    and "W + (X - real_of_int nx) / 2 - 1/2 \<le> real_of_int nw"
    and "\<bar>nx\<bar> \<le> 1073741001" and "\<bar>nw\<bar> \<le> 1073741001"
    and "int32 (nx + nw - 1) = nx + nw - 1"
proof -
  have X: "\<bar>X\<bar> \<le> 2147483647" using assms(1) by argo
  show x1: "real_of_int nx \<le> X + 1/2" unfolding nx_def by (rule qRound_upper [OF X])
  show x2: "X - 1/2 \<le> real_of_int nx" unfolding nx_def by (rule qRound_lower [OF X])
  have D: "\<bar>W + (X - real_of_int nx) / 2\<bar> \<le> 2147483647" using assms(2) x1 x2 by argo
  show w1: "real_of_int nw \<le> W + (X - real_of_int nx) / 2 + 1/2"
    unfolding nw_def by (rule qRound_upper [OF D])
  show w2: "W + (X - real_of_int nx) / 2 - 1/2 \<le> real_of_int nw"
    unfolding nw_def by (rule qRound_lower [OF D])
  have "\<bar>real_of_int nx\<bar> \<le> 1073741001" using assms(1) x1 x2 by argo
  then show bx: "\<bar>nx\<bar> \<le> 1073741001" by linarith
  have "\<bar>real_of_int nw\<bar> \<le> 1073741001" using assms(2) x1 x2 w1 w2 by argo
  then show bw: "\<bar>nw\<bar> \<le> 1073741001" by linarith
  show "int32 (nx + nw - 1) = nx + nw - 1" using bx bw by (intro int32_id) linarith+
qed


lemma toRect_small:
  assumes "\<bar>rf_x r\<bar> \<le> 1073741000" and "\<bar>rf_y r\<bar> \<le> 1073741000"
    and "\<bar>rf_w r\<bar> \<le> 1073741000" and "\<bar>rf_h r\<bar> \<le> 1073741000"
  shows "QRectF_toRect r =
     \<lparr>r_x1 = qRound (rf_x r), r_y1 = qRound (rf_y r),
      r_x2 = qRound (rf_x r) + qRound (rf_w r + (rf_x r - real_of_int (qRound (rf_x r))) / 2) - 1,
      r_y2 = qRound (rf_y r) + qRound (rf_h r + (rf_y r - real_of_int (qRound (rf_y r))) / 2) - 1\<rparr>"
  by (simp add: QRectF_toRect_def QRect_make_def Let_def
      round_1d(7) [OF assms(1,3) refl refl] round_1d(7) [OF assms(2,4) refl refl])

lemma toRect_of_ints:
  assumes "\<bar>a\<bar> \<le> 1073741000" and "\<bar>b\<bar> \<le> 1073741000"
    and "\<bar>c\<bar> \<le> 1073741000" and "\<bar>d\<bar> \<le> 1073741000"
  shows "QRectF_toRect \<lparr>rf_x = real_of_int a, rf_y = real_of_int b,
                        rf_w = real_of_int c, rf_h = real_of_int d\<rparr>
         = \<lparr>r_x1 = a, r_y1 = b, r_x2 = a + c - 1, r_y2 = b + d - 1\<rparr>"
proof -
  have q: "qRound (real_of_int a) = a" "qRound (real_of_int b) = b"
    "qRound (real_of_int c) = c" "qRound (real_of_int d) = d"
    using assms by (simp_all add: qRound_of_int)
  have i: "int32 (a + c - 1) = a + c - 1" "int32 (b + d - 1) = b + d - 1"
    using assms by (simp_all add: int32_id)
  show ?thesis
    by (simp add: QRectF_toRect_def QRect_make_def Let_def q i)
qed

text \<open>
  One coordinate of the containment test: if the integer span of width \<open>c\<close> at \<open>a\<close> lies
  strictly inside the rounded span, it lies inside the span that was rounded.
\<close>

lemma span_1d:
  fixes X W :: real and a c nx nw :: int
  assumes x1: "real_of_int nx \<le> X + 1/2" and x2: "X - 1/2 \<le> real_of_int nx"
    and w1: "real_of_int nw \<le> W + (X - real_of_int nx) / 2 + 1/2"
    and w2: "W + (X - real_of_int nx) / 2 - 1/2 \<le> real_of_int nw"
    and l: "(if nw < 0 then nx + nw else nx) < (if c < 0 then a + c else a)"
    and r: "(if c < 0 then a - 1 else a + c - 1) < (if nw < 0 then nx - 1 else nx + nw - 1)"
  shows "(if W < 0 then X + W else X)
           \<le> (if c < 0 then real_of_int a + real_of_int c else real_of_int a)
       \<and> (if c < 0 then real_of_int a else real_of_int a + real_of_int c)
           \<le> (if W < 0 then X else X + W)"
proof -
  have pos: "0 \<le> nw" if "0 \<le> W"
  proof -
    have "- 1 < real_of_int nw" using that x1 x2 w2 by argo
    then show ?thesis by linarith
  qed
  have neg: "nw \<le> 0" if "W < 0"
  proof -
    have "real_of_int nw < 1" using that x1 x2 w1 by argo
    then show ?thesis by linarith
  qed
  define L1 where "L1 = (if nw < 0 then nx + nw else nx)"
  define R1 where "R1 = (if nw < 0 then nx else nx + nw)"
  define L2 where "L2 = (if c < 0 then a + c else a)"
  define R2 where "R2 = (if c < 0 then a else a + c)"
  have l': "L1 + 1 \<le> L2" using l unfolding L1_def L2_def by (auto split: if_splits)
  have r': "R2 + 1 \<le> R1" using r unfolding R1_def R2_def by (auto split: if_splits)
  have le: "L2 \<le> R2" unfolding L2_def R2_def by auto
  have nz: "nw \<noteq> 0" using l' r' le unfolding L1_def R1_def by auto
  have lr: "real_of_int L1 + 1 \<le> real_of_int L2" using l' by linarith
  have rr: "real_of_int R2 + 1 \<le> real_of_int R1" using r' by linarith
  have sL: "(if W < 0 then X + W else X) \<le> real_of_int L1 + 3/4"
  proof (cases "W < 0")
    case True
    then have "nw < 0" using neg nz by force
    then have "real_of_int L1 = real_of_int nx + real_of_int nw" by (simp add: L1_def)
    then show ?thesis using True x2 w2 by argo
  next
    case False
    then have "0 < nw" using pos nz by force
    then have "real_of_int L1 = real_of_int nx" by (simp add: L1_def)
    then show ?thesis using False x2 by argo
  qed
  have sR: "real_of_int R1 - 3/4 \<le> (if W < 0 then X else X + W)"
  proof (cases "W < 0")
    case True
    then have "nw < 0" using neg nz by force
    then have "real_of_int R1 = real_of_int nx" by (simp add: R1_def)
    then show ?thesis using True x1 by argo
  next
    case False
    then have "0 < nw" using pos nz by force
    then have "real_of_int R1 = real_of_int nx + real_of_int nw" by (simp add: R1_def)
    then show ?thesis using False x1 w1 by argo
  qed
  have pL: "(if c < 0 then real_of_int a + real_of_int c else real_of_int a) = real_of_int L2"
    unfolding L2_def by simp
  have pR: "(if c < 0 then real_of_int a else real_of_int a + real_of_int c) = real_of_int R2"
    unfolding R2_def by simp
  show ?thesis unfolding pL pR using sL sR lr rr by argo
qed

text \<open>The containment test on corners that are far from the ends of the range of
  \<^verbatim>\<open>int\<close>: no wrap-around takes place.\<close>

lemma contains_spans:
  assumes "\<bar>nx\<bar> \<le> 1073741001" "\<bar>nw\<bar> \<le> 1073741001" "\<bar>ny\<bar> \<le> 1073741001" "\<bar>nh\<bar> \<le> 1073741001"
    and "\<bar>a\<bar> \<le> 1073741001" "\<bar>c\<bar> \<le> 1073741001" "\<bar>b\<bar> \<le> 1073741001" "\<bar>d\<bar> \<le> 1073741001"
    and "QRect_contains \<lparr>r_x1 = nx, r_y1 = ny, r_x2 = nx + nw - 1, r_y2 = ny + nh - 1\<rparr>
           \<lparr>r_x1 = a, r_y1 = b, r_x2 = a + c - 1, r_y2 = b + d - 1\<rparr> True"
  shows "(if nw < 0 then nx + nw else nx) < (if c < 0 then a + c else a)"
    and "(if c < 0 then a - 1 else a + c - 1) < (if nw < 0 then nx - 1 else nx + nw - 1)"
    and "(if nh < 0 then ny + nh else ny) < (if d < 0 then b + d else b)"
    and "(if d < 0 then b - 1 else b + d - 1) < (if nh < 0 then ny - 1 else ny + nh - 1)"
proof -
  have i: "int32 (nx - 1) = nx - 1" "int32 (nx + nw - 1 + 1) = nx + nw"
    "int32 (ny - 1) = ny - 1" "int32 (ny + nh - 1 + 1) = ny + nh"
    "int32 (a - 1) = a - 1" "int32 (a + c - 1 + 1) = a + c"
    "int32 (b - 1) = b - 1" "int32 (b + d - 1 + 1) = b + d"
    using assms(1-8) by (simp_all add: int32_id)
  note c = assms(9) [unfolded QRect_contains_def QRect_isNull_def Let_def QRect.simps i]
  show "(if nw < 0 then nx + nw else nx) < (if c < 0 then a + c else a)"
    using c by (simp split: if_splits)
  show "(if c < 0 then a - 1 else a + c - 1) < (if nw < 0 then nx - 1 else nx + nw - 1)"
    using c by (simp split: if_splits)
  show "(if nh < 0 then ny + nh else ny) < (if d < 0 then b + d else b)"
    using c by (simp split: if_splits)
  show "(if d < 0 then b - 1 else b + d - 1) < (if nh < 0 then ny - 1 else ny + nh - 1)"
    using c by (simp split: if_splits)
qed


lemma rf_edges_of_ints:
  "rf_left \<lparr>rf_x = real_of_int a, rf_y = real_of_int b,
            rf_w = real_of_int c, rf_h = real_of_int d\<rparr>
     = (if c < 0 then real_of_int a + real_of_int c else real_of_int a)"
  "rf_right \<lparr>rf_x = real_of_int a, rf_y = real_of_int b,
             rf_w = real_of_int c, rf_h = real_of_int d\<rparr>
     = (if c < 0 then real_of_int a else real_of_int a + real_of_int c)"
  "rf_top \<lparr>rf_x = real_of_int a, rf_y = real_of_int b,
           rf_w = real_of_int c, rf_h = real_of_int d\<rparr>
     = (if d < 0 then real_of_int b + real_of_int d else real_of_int b)"
  "rf_bottom \<lparr>rf_x = real_of_int a, rf_y = real_of_int b,
              rf_w = real_of_int c, rf_h = real_of_int d\<rparr>
     = (if d < 0 then real_of_int b else real_of_int b + real_of_int d)"
  by (simp_all add: rf_left_def rf_right_def rf_top_def rf_bottom_def)

text \<open>The padded rectangle of a small visible rectangle, in terms of its rounded corner
  and size.\<close>

lemma padded_small:
  assumes "rf_small (viewportRectInScene tk (widget v))"
    and V_def: "V = viewportRectInScene tk (widget v)"
    and nx_def: "nx = qRound (rf_x V)" and ny_def: "ny = qRound (rf_y V)"
    and nw_def: "nw = qRound (rf_w V + (rf_x V - real_of_int nx) / 2)"
    and nh_def: "nh = qRound (rf_h V + (rf_y V - real_of_int ny) / 2)"
  shows "paddedVisibleRect tk v =
     \<lparr>rf_x = real_of_int (nx - 50), rf_y = real_of_int (ny - 50),
      rf_w = real_of_int (nw + 100), rf_h = real_of_int (nh + 100)\<rparr>"
proof -
  have b: "\<bar>rf_x V\<bar> \<le> 1073741000" "\<bar>rf_y V\<bar> \<le> 1073741000"
    "\<bar>rf_w V\<bar> \<le> 1073741000" "\<bar>rf_h V\<bar> \<le> 1073741000"
    using assms(1) unfolding rf_small_def V_def by argo+
  have t: "QRectF_toRect V =
     \<lparr>r_x1 = nx, r_y1 = ny, r_x2 = nx + nw - 1, r_y2 = ny + nh - 1\<rparr>"
    unfolding nx_def ny_def nw_def nh_def by (rule toRect_small [OF b])
  have bw: "\<bar>nw\<bar> \<le> 1073741001" by (rule round_1d(6) [OF b(1,3) nx_def nw_def])
  have bh: "\<bar>nh\<bar> \<le> 1073741001" by (rule round_1d(6) [OF b(2,4) ny_def nh_def])
  have w: "QRect_width (QRectF_toRect V) = nw" "QRect_height (QRectF_toRect V) = nh"
    using bw bh by (simp_all add: t QRect_width_def QRect_height_def int32_id)
  show ?thesis
    using t w
    by (simp add: paddedVisibleRect_def QRectF_of_QRect_def Let_def V_def [symmetric])
qed

lemma contains_padded_within:
  assumes s: "rf_small s" and vis: "rf_small (viewportRectInScene tk (widget v))"
    and c: "QRect_contains (QRectF_toRect s) (QRectF_toRect (paddedVisibleRect tk v)) True"
  shows "rf_within (paddedVisibleRect tk v) s"
proof -
  define V where "V = viewportRectInScene tk (widget v)"
  define vx where "vx = qRound (rf_x V)"
  define vy where "vy = qRound (rf_y V)"
  define vw where "vw = qRound (rf_w V + (rf_x V - real_of_int vx) / 2)"
  define vh where "vh = qRound (rf_h V + (rf_y V - real_of_int vy) / 2)"
  define nx where "nx = qRound (rf_x s)"
  define ny where "ny = qRound (rf_y s)"
  define nw where "nw = qRound (rf_w s + (rf_x s - real_of_int nx) / 2)"
  define nh where "nh = qRound (rf_h s + (rf_y s - real_of_int ny) / 2)"
  have bv: "\<bar>rf_x V\<bar> \<le> 1073741000" "\<bar>rf_y V\<bar> \<le> 1073741000"
    "\<bar>rf_w V\<bar> \<le> 1073741000" "\<bar>rf_h V\<bar> \<le> 1073741000"
    using vis unfolding rf_small_def V_def by argo+
  have bs: "\<bar>rf_x s\<bar> \<le> 1073741000" "\<bar>rf_y s\<bar> \<le> 1073741000"
    "\<bar>rf_w s\<bar> \<le> 1073741000" "\<bar>rf_h s\<bar> \<le> 1073741000"
    using s unfolding rf_small_def by argo+
  have sv: "\<bar>rf_x V\<bar> \<le> 1000000000" "\<bar>rf_y V\<bar> \<le> 1000000000"
    "\<bar>rf_w V\<bar> \<le> 1000000000" "\<bar>rf_h V\<bar> \<le> 1000000000"
    using vis unfolding rf_small_def V_def by simp_all
  note rx = round_1d [OF bs(1,3) nx_def nw_def]
  note ry = round_1d [OF bs(2,4) ny_def nh_def]
  note qx = round_1d [OF bv(1,3) vx_def vw_def]
  note qy = round_1d [OF bv(2,4) vy_def vh_def]
  have "\<bar>real_of_int vx\<bar> \<le> 1000000001" using sv(1) qx(1,2) by argo
  then have p1: "\<bar>vx - 50\<bar> \<le> 1073741000" by linarith
  have "\<bar>real_of_int vy\<bar> \<le> 1000000001" using sv(2) qy(1,2) by argo
  then have p2: "\<bar>vy - 50\<bar> \<le> 1073741000" by linarith
  have "\<bar>real_of_int vw\<bar> \<le> 1000000001" using sv(3) qx(1-4) by argo
  then have p3: "\<bar>vw + 100\<bar> \<le> 1073741000" by linarith
  have "\<bar>real_of_int vh\<bar> \<le> 1000000001" using sv(4) qy(1-4) by argo
  then have p4: "\<bar>vh + 100\<bar> \<le> 1073741000" by linarith
  have p: "paddedVisibleRect tk v =
     \<lparr>rf_x = real_of_int (vx - 50), rf_y = real_of_int (vy - 50),
      rf_w = real_of_int (vw + 100), rf_h = real_of_int (vh + 100)\<rparr>"
    by (rule padded_small [OF vis V_def vx_def vy_def vw_def vh_def])
  have tp: "QRectF_toRect (paddedVisibleRect tk v) =
     \<lparr>r_x1 = vx - 50, r_y1 = vy - 50, r_x2 = (vx - 50) + (vw + 100) - 1,
      r_y2 = (vy - 50) + (vh + 100) - 1\<rparr>"
    unfolding p by (rule toRect_of_ints [OF p1 p2 p3 p4])
  have ts: "QRectF_toRect s =
     \<lparr>r_x1 = nx, r_y1 = ny, r_x2 = nx + nw - 1, r_y2 = ny + nh - 1\<rparr>"
    unfolding nx_def ny_def nw_def nh_def by (rule toRect_small [OF bs])
  have q1: "\<bar>vx - 50\<bar> \<le> 1073741001" "\<bar>vw + 100\<bar> \<le> 1073741001"
    "\<bar>vy - 50\<bar> \<le> 1073741001" "\<bar>vh + 100\<bar> \<le> 1073741001"
    using p1 p2 p3 p4 by linarith+
  note sp = contains_spans [OF rx(5) rx(6) ry(5) ry(6) q1 c [unfolded ts tp]]
  have x: "rf_left s \<le> (if vw + 100 < 0 then real_of_int (vx - 50) + real_of_int (vw + 100)
                          else real_of_int (vx - 50))
         \<and> (if vw + 100 < 0 then real_of_int (vx - 50)
             else real_of_int (vx - 50) + real_of_int (vw + 100)) \<le> rf_right s"
    unfolding rf_left_def rf_right_def by (rule span_1d [OF rx(1-4) sp(1,2)])
  have y: "rf_top s \<le> (if vh + 100 < 0 then real_of_int (vy - 50) + real_of_int (vh + 100)
                         else real_of_int (vy - 50))
         \<and> (if vh + 100 < 0 then real_of_int (vy - 50)
             else real_of_int (vy - 50) + real_of_int (vh + 100)) \<le> rf_bottom s"
    unfolding rf_top_def rf_bottom_def by (rule span_1d [OF ry(1-4) sp(3,4)])
  show ?thesis
    unfolding rf_within_def p rf_edges_of_ints using x y by blast
qed

lemma padded_covers_visible:
  assumes vis: "rf_small (viewportRectInScene tk (widget v))"
    and "0 \<le> rf_w (viewportRectInScene tk (widget v))"
    and "0 \<le> rf_h (viewportRectInScene tk (widget v))"
  shows "rf_within (viewportRectInScene tk (widget v)) (paddedVisibleRect tk v)"
proof -
  define V where "V = viewportRectInScene tk (widget v)"
  define vx where "vx = qRound (rf_x V)"
  define vy where "vy = qRound (rf_y V)"
  define vw where "vw = qRound (rf_w V + (rf_x V - real_of_int vx) / 2)"
  define vh where "vh = qRound (rf_h V + (rf_y V - real_of_int vy) / 2)"
  have bv: "\<bar>rf_x V\<bar> \<le> 1073741000" "\<bar>rf_y V\<bar> \<le> 1073741000"
    "\<bar>rf_w V\<bar> \<le> 1073741000" "\<bar>rf_h V\<bar> \<le> 1073741000"
    using vis unfolding rf_small_def V_def by argo+
  note qx = round_1d [OF bv(1,3) vx_def vw_def]
  note qy = round_1d [OF bv(2,4) vy_def vh_def]
  have w: "0 \<le> rf_w V" and h: "0 \<le> rf_h V" using assms(2,3) by (simp_all add: V_def)
  have "- 1 < real_of_int vw" using w qx(1-4) by argo
  then have w0: "0 \<le> vw" by linarith
  have "- 1 < real_of_int vh" using h qy(1-4) by argo
  then have h0: "0 \<le> vh" by linarith
  have p: "paddedVisibleRect tk v =
     \<lparr>rf_x = real_of_int (vx - 50), rf_y = real_of_int (vy - 50),
      rf_w = real_of_int (vw + 100), rf_h = real_of_int (vh + 100)\<rparr>"
    by (rule padded_small [OF vis V_def vx_def vy_def vw_def vh_def])
  have e: "rf_left V = rf_x V" "rf_right V = rf_x V + rf_w V"
    "rf_top V = rf_y V" "rf_bottom V = rf_y V + rf_h V"
    using w h by (simp_all add: rf_left_def rf_right_def rf_top_def rf_bottom_def)
  have n: "\<not> vw + 100 < 0" "\<not> vh + 100 < 0" using w0 h0 by linarith+
  have l: "real_of_int (vx - 50) \<le> rf_x V" using qx(1) by (simp; argo)
  have r: "rf_x V + rf_w V \<le> real_of_int (vx - 50) + real_of_int (vw + 100)"
    using qx(2,4) by (simp; argo)
  have t: "real_of_int (vy - 50) \<le> rf_y V" using qy(1) by (simp; argo)
  have b: "rf_y V + rf_h V \<le> real_of_int (vy - 50) + real_of_int (vh + 100)"
    using qy(2,4) by (simp; argo)
  show ?thesis
    unfolding V_def [symmetric] rf_within_def p rf_edges_of_ints e using n l r t b by simp
qed


lemma united_covers_left:
  assumes "\<not> QRectF_isNull s"
  shows "rf_within s (QRectF_united s r)"
  using assms
  by (auto simp add: QRectF_united_def rf_within_def rf_left_def rf_right_def rf_top_def
      rf_bottom_def Let_def)

lemma united_of_within:
  assumes "rf_within r s"
  shows "rf_left (QRectF_united s r) = rf_left s \<and> rf_right (QRectF_united s r) = rf_right s
       \<and> rf_top (QRectF_united s r) = rf_top s \<and> rf_bottom (QRectF_united s r) = rf_bottom s"
  using assms
  by (auto simp add: QRectF_united_def QRectF_isNull_def rf_within_def rf_left_def rf_right_def
      rf_top_def rf_bottom_def Let_def split: if_splits)

lemma united_of_within_normal:
  assumes "rf_within r s" and "0 \<le> rf_w s" and "0 \<le> rf_h s"
  shows "QRectF_united s r = s"
  using assms
  by (cases s; cases r)
     (auto simp add: QRectF_united_def QRectF_isNull_def rf_within_def rf_left_def rf_right_def
      rf_top_def rf_bottom_def Let_def split: if_splits)

lemma rf_within_refl: "rf_within s s"
  by (simp add: rf_within_def)

text \<open>
  Claim C7. \<^verbatim>\<open>updateSceneRect\<close> changes nothing but the scene rectangle. Unless the old
  rectangle is null (no width and no height, so that the union is the other operand),
  the new one covers the old one. Whenever the padded visible region is not inside the
  old rectangle, the new rectangle is their union; the test of the code, strict
  containment of the rounded rectangles, can only succeed when the region is inside.
  When the region is inside, the edges stay where they were, and a rectangle of
  non-negative width and height is left exactly as it was.
\<close>

text \<open>
  Claim C7, as the code has it. \<^verbatim>\<open>updateSceneRect\<close> changes nothing but the scene
  rectangle, and unless the old rectangle is null (no width and no height, so that the
  union is the other operand) the new one covers the old one. For a scene rectangle and
  a visible rectangle with corner and size of at most \<open>10\<^sup>9\<close> in absolute value, no
  conversion to \<^verbatim>\<open>int\<close> overflows: the padded rectangle of the code, which is the
  visible rectangle rounded to integers and widened by 50 on each side, covers the
  visible rectangle (of non-negative width and height), and whenever it is not inside
  the old scene rectangle the new scene rectangle is their union; the test of the
  code, strict containment of the rounded rectangles, can only succeed when it is
  inside. Whenever the padded rectangle is inside the old scene rectangle, the edges
  stay where they were, and a rectangle of non-negative width and height is left
  exactly as it was.
\<close>

theorem updateSceneRect_grows:
  shows "(\<not> QRectF_isNull (sceneRect (widget v)) \<longrightarrow>
            rf_within (sceneRect (widget v)) (sceneRect (widget (updateSceneRect tk v))))
       \<and> (rf_small (sceneRect (widget v)) \<and> rf_small (viewportRectInScene tk (widget v)) \<longrightarrow>
            (0 \<le> rf_w (viewportRectInScene tk (widget v))
               \<and> 0 \<le> rf_h (viewportRectInScene tk (widget v)) \<longrightarrow>
             rf_within (viewportRectInScene tk (widget v)) (paddedVisibleRect tk v))
          \<and> (\<not> rf_within (paddedVisibleRect tk v) (sceneRect (widget v)) \<longrightarrow>
               sceneRect (widget (updateSceneRect tk v))
                 = QRectF_united (sceneRect (widget v)) (paddedVisibleRect tk v)))
       \<and> (rf_within (paddedVisibleRect tk v) (sceneRect (widget v)) \<longrightarrow>
            rf_left (sceneRect (widget (updateSceneRect tk v))) = rf_left (sceneRect (widget v))
          \<and> rf_right (sceneRect (widget (updateSceneRect tk v))) = rf_right (sceneRect (widget v))
          \<and> rf_top (sceneRect (widget (updateSceneRect tk v))) = rf_top (sceneRect (widget v))
          \<and> rf_bottom (sceneRect (widget (updateSceneRect tk v))) = rf_bottom (sceneRect (widget v))
          \<and> (0 \<le> rf_w (sceneRect (widget v)) \<and> 0 \<le> rf_h (sceneRect (widget v)) \<longrightarrow>
               updateSceneRect tk v = v))"
proof -
  have cover: "rf_small (viewportRectInScene tk (widget v)) \<Longrightarrow>
      0 \<le> rf_w (viewportRectInScene tk (widget v)) \<Longrightarrow>
      0 \<le> rf_h (viewportRectInScene tk (widget v)) \<Longrightarrow>
      rf_within (viewportRectInScene tk (widget v)) (paddedVisibleRect tk v)"
    by (rule padded_covers_visible)
  show ?thesis
  proof (cases "QRect_contains (QRectF_toRect (sceneRect (widget v)))
                  (QRectF_toRect (paddedVisibleRect tk v)) True")
    case True
    then have same: "updateSceneRect tk v = v"
      by (simp add: updateSceneRect_def Let_def)
    have inside: "rf_small (sceneRect (widget v)) \<Longrightarrow>
        rf_small (viewportRectInScene tk (widget v)) \<Longrightarrow>
        rf_within (paddedVisibleRect tk v) (sceneRect (widget v))"
      by (rule contains_padded_within [OF _ _ True])
    show ?thesis
      using cover inside unfolding same by (simp add: rf_within_refl)
  next
    case False
    then have upd: "updateSceneRect tk v =
        setSceneRect (QRectF_united (sceneRect (widget v)) (paddedVisibleRect tk v)) v"
      by (simp add: updateSceneRect_def Let_def)
    have new: "sceneRect (widget (updateSceneRect tk v))
        = QRectF_united (sceneRect (widget v)) (paddedVisibleRect tk v)"
      by (simp add: upd setSceneRect_def)
    have a: "\<not> QRectF_isNull (sceneRect (widget v)) \<Longrightarrow>
        rf_within (sceneRect (widget v)) (sceneRect (widget (updateSceneRect tk v)))"
      unfolding new by (rule united_covers_left)
    have n: "rf_within (paddedVisibleRect tk v) (sceneRect (widget v)) \<Longrightarrow>
        0 \<le> rf_w (sceneRect (widget v)) \<Longrightarrow> 0 \<le> rf_h (sceneRect (widget v)) \<Longrightarrow>
        updateSceneRect tk v = v"
      by (simp add: upd setSceneRect_def united_of_within_normal)
    show ?thesis
      using a n cover united_of_within [of "paddedVisibleRect tk v" "sceneRect (widget v)"]
      unfolding new by blast
  qed
qed

lemma demo_padded:
  "paddedVisibleRect demo_toolkit (demo_view f) = \<lparr>rf_x = - 50, rf_y = - 50, rf_w = 900, rf_h = 700\<rparr>"
  by (simp add: paddedVisibleRect_def demo_toolkit_fields demo_visible_def demo_view_def
      demo_widget_def QTransform_fromScale_def QRectF_toRect_def QRectF_of_QRect_def
      QRect_make_def QRect_width_def QRect_height_def qRound_def toInt_def int32_def Let_def)

lemma demo_padded_shifted:
  "paddedVisibleRect demo_toolkit
     (demo_view f\<lparr>widget := demo_widget\<lparr>transform :=
        \<lparr>m11 = 1, m12 = 0, m21 = 0, m22 = 1, m31 = - 500, m32 = - 500\<rparr>\<rparr>\<rparr>)
   = \<lparr>rf_x = 450, rf_y = 450, rf_w = 900, rf_h = 700\<rparr>"
  by (simp add: paddedVisibleRect_def demo_toolkit_fields demo_visible_def demo_view_def
      demo_widget_def QRectF_toRect_def QRectF_of_QRect_def
      QRect_make_def QRect_width_def QRect_height_def qRound_def toInt_def int32_def Let_def)

theorem updateSceneRect_grows_witness:
  "\<not> QRectF_isNull (sceneRect (widget (demo_view 0)))
   \<and> rf_small (sceneRect (widget (demo_view 0)))
   \<and> rf_small (viewportRectInScene demo_toolkit (widget (demo_view 0)))
   \<and> 0 \<le> rf_w (viewportRectInScene demo_toolkit (widget (demo_view 0)))
   \<and> 0 \<le> rf_h (viewportRectInScene demo_toolkit (widget (demo_view 0)))
   \<and> rf_within (viewportRectInScene demo_toolkit (widget (demo_view 0)))
         (paddedVisibleRect demo_toolkit (demo_view 0))
   \<and> \<not> rf_within (paddedVisibleRect demo_toolkit (demo_view 0)) (sceneRect (widget (demo_view 0)))
   \<and> sceneRect (widget (updateSceneRect demo_toolkit (demo_view 0)))
       = \<lparr>rf_x = - 50, rf_y = - 50, rf_w = 2050, rf_h = 2050\<rparr>
   \<and> rf_within (sceneRect (widget (demo_view 0)))
         (sceneRect (widget (updateSceneRect demo_toolkit (demo_view 0))))
   \<and> rf_within (paddedVisibleRect demo_toolkit
           (demo_view 0\<lparr>widget := demo_widget\<lparr>transform :=
              \<lparr>m11 = 1, m12 = 0, m21 = 0, m22 = 1, m31 = - 500, m32 = - 500\<rparr>\<rparr>\<rparr>))
         (sceneRect (widget (demo_view 0\<lparr>widget := demo_widget\<lparr>transform :=
              \<lparr>m11 = 1, m12 = 0, m21 = 0, m22 = 1, m31 = - 500, m32 = - 500\<rparr>\<rparr>\<rparr>)))
   \<and> updateSceneRect demo_toolkit
         (demo_view 0\<lparr>widget := demo_widget\<lparr>transform :=
            \<lparr>m11 = 1, m12 = 0, m21 = 0, m22 = 1, m31 = - 500, m32 = - 500\<rparr>\<rparr>\<rparr>)
       = demo_view 0\<lparr>widget := demo_widget\<lparr>transform :=
            \<lparr>m11 = 1, m12 = 0, m21 = 0, m22 = 1, m31 = - 500, m32 = - 500\<rparr>\<rparr>\<rparr>"
proof -
  let ?u = "demo_view 0\<lparr>widget := demo_widget\<lparr>transform :=
            \<lparr>m11 = 1, m12 = 0, m21 = 0, m22 = 1, m31 = - 500, m32 = - 500\<rparr>\<rparr>\<rparr>"
  have s: "sceneRect (widget (demo_view 0)) = \<lparr>rf_x = 0, rf_y = 0, rf_w = 2000, rf_h = 2000\<rparr>"
    "sceneRect (widget ?u) = \<lparr>rf_x = 0, rf_y = 0, rf_w = 2000, rf_h = 2000\<rparr>"
    by (simp_all add: demo_view_def demo_widget_def)
  have vr: "viewportRectInScene demo_toolkit (widget (demo_view 0))
            = \<lparr>rf_x = 0, rf_y = 0, rf_w = 800, rf_h = 600\<rparr>"
    by (simp add: demo_toolkit_fields demo_visible_def demo_view_def demo_widget_def
        QTransform_fromScale_def)
  have n: "\<not> QRectF_isNull (sceneRect (widget (demo_view 0)))"
    by (simp add: s QRectF_isNull_def)
  have sm: "rf_small (sceneRect (widget (demo_view 0)))"
    "rf_small (viewportRectInScene demo_toolkit (widget (demo_view 0)))"
    "0 \<le> rf_w (viewportRectInScene demo_toolkit (widget (demo_view 0)))"
    "0 \<le> rf_h (viewportRectInScene demo_toolkit (widget (demo_view 0)))"
    unfolding s vr by (simp_all add: rf_small_def)
  have out: "\<not> rf_within (paddedVisibleRect demo_toolkit (demo_view 0)) (sceneRect (widget (demo_view 0)))"
    by (simp add: s demo_padded rf_within_def rf_left_def rf_right_def rf_top_def rf_bottom_def)
  have inn: "rf_within (paddedVisibleRect demo_toolkit ?u) (sceneRect (widget ?u))"
    unfolding s(2) demo_padded_shifted
    by (simp add: rf_within_def rf_left_def rf_right_def rf_top_def rf_bottom_def)
  have un: "QRectF_united \<lparr>rf_x = 0, rf_y = 0, rf_w = 2000, rf_h = 2000\<rparr>
              \<lparr>rf_x = - 50, rf_y = - 50, rf_w = 900, rf_h = 700\<rparr>
            = \<lparr>rf_x = - 50, rf_y = - 50, rf_w = 2050, rf_h = 2050\<rparr>"
    by (simp add: QRectF_united_def QRectF_isNull_def Let_def)
  have nn: "0 \<le> rf_w (sceneRect (widget ?u)) \<and> 0 \<le> rf_h (sceneRect (widget ?u))"
    unfolding s(2) by simp
  show ?thesis
    using n sm out inn nn
      updateSceneRect_grows [where tk = demo_toolkit and v = "demo_view 0"]
      updateSceneRect_grows [where tk = demo_toolkit and v = ?u]
    unfolding demo_padded s(1) un by blast
qed

text \<open>
  The claim as it was stated fails where the conversions overflow. At the scale
  \<open>2\<^sup>-\<^sup>2\<^sup>4\<close> the visible rectangle is 13421772800 wide and is not inside the scene
  rectangle; its rounded width is \<open>- 2147483648\<close>, the padded rectangle of the code has
  the negative width \<open>- 2147483548\<close>, and the new scene rectangle, the union with that,
  ends at 2000 and does not cover the visible rectangle.
\<close>

theorem updateSceneRect_grows_counterexample:
  "viewportRectInScene demo_toolkit
     (widget (demo_view 0\<lparr>widget := demo_widget\<lparr>transform :=
        QTransform_fromScale (1/16777216) (1/16777216)\<rparr>\<rparr>))
     = \<lparr>rf_x = 0, rf_y = 0, rf_w = 13421772800, rf_h = 10066329600\<rparr>
   \<and> sceneRect (widget (demo_view 0\<lparr>widget := demo_widget\<lparr>transform :=
        QTransform_fromScale (1/16777216) (1/16777216)\<rparr>\<rparr>))
     = \<lparr>rf_x = 0, rf_y = 0, rf_w = 2000, rf_h = 2000\<rparr>
   \<and> paddedVisibleRect demo_toolkit
       (demo_view 0\<lparr>widget := demo_widget\<lparr>transform :=
          QTransform_fromScale (1/16777216) (1/16777216)\<rparr>\<rparr>)
     = \<lparr>rf_x = - 50, rf_y = - 50, rf_w = - 2147483548, rf_h = - 2147483548\<rparr>
   \<and> sceneRect (widget (updateSceneRect demo_toolkit
       (demo_view 0\<lparr>widget := demo_widget\<lparr>transform :=
          QTransform_fromScale (1/16777216) (1/16777216)\<rparr>\<rparr>)))
     = \<lparr>rf_x = - 2147483598, rf_y = - 2147483598, rf_w = 2147485598, rf_h = 2147485598\<rparr>
   \<and> \<not> rf_within
        (viewportRectInScene demo_toolkit
           (widget (demo_view 0\<lparr>widget := demo_widget\<lparr>transform :=
              QTransform_fromScale (1/16777216) (1/16777216)\<rparr>\<rparr>)))
        (sceneRect (widget (updateSceneRect demo_toolkit
           (demo_view 0\<lparr>widget := demo_widget\<lparr>transform :=
              QTransform_fromScale (1/16777216) (1/16777216)\<rparr>\<rparr>))))"
proof -
  let ?u = "demo_view 0\<lparr>widget := demo_widget\<lparr>transform :=
              QTransform_fromScale (1/16777216) (1/16777216)\<rparr>\<rparr>"
  have vr: "viewportRectInScene demo_toolkit (widget ?u)
            = \<lparr>rf_x = 0, rf_y = 0, rf_w = 13421772800, rf_h = 10066329600\<rparr>"
    by (simp add: demo_toolkit_fields demo_visible_def demo_view_def demo_widget_def
        QTransform_fromScale_def)
  have sr: "sceneRect (widget ?u) = \<lparr>rf_x = 0, rf_y = 0, rf_w = 2000, rf_h = 2000\<rparr>"
    by (simp add: demo_view_def demo_widget_def)
  have tv: "QRectF_toRect \<lparr>rf_x = 0, rf_y = 0, rf_w = 13421772800, rf_h = 10066329600\<rparr>
            = \<lparr>r_x1 = 0, r_y1 = 0, r_x2 = 2147483647, r_y2 = 2147483647\<rparr>"
    by (simp add: QRectF_toRect_def QRect_make_def qRound_def toInt_def int32_def Let_def)
  have pr: "paddedVisibleRect demo_toolkit ?u
            = \<lparr>rf_x = - 50, rf_y = - 50, rf_w = - 2147483548, rf_h = - 2147483548\<rparr>"
    unfolding paddedVisibleRect_def vr tv
    by (simp add: QRectF_of_QRect_def QRect_width_def QRect_height_def int32_def Let_def)
  have tp: "QRectF_toRect \<lparr>rf_x = - 50, rf_y = - 50, rf_w = - 2147483548, rf_h = - 2147483548\<rparr>
            = \<lparr>r_x1 = - 50, r_y1 = - 50, r_x2 = - 2147483599, r_y2 = - 2147483599\<rparr>"
    by (simp add: QRectF_toRect_def QRect_make_def qRound_def toInt_def int32_def Let_def)
  have ts: "QRectF_toRect \<lparr>rf_x = 0, rf_y = 0, rf_w = 2000, rf_h = 2000\<rparr>
            = \<lparr>r_x1 = 0, r_y1 = 0, r_x2 = 1999, r_y2 = 1999\<rparr>"
    by (simp add: QRectF_toRect_def QRect_make_def qRound_def toInt_def int32_def Let_def)
  have nc: "\<not> QRect_contains \<lparr>r_x1 = 0, r_y1 = 0, r_x2 = 1999, r_y2 = 1999\<rparr>
              \<lparr>r_x1 = - 50, r_y1 = - 50, r_x2 = - 2147483599, r_y2 = - 2147483599\<rparr> True"
    by (simp add: QRect_contains_def QRect_isNull_def int32_def Let_def)
  have un: "QRectF_united \<lparr>rf_x = 0, rf_y = 0, rf_w = 2000, rf_h = 2000\<rparr>
              \<lparr>rf_x = - 50, rf_y = - 50, rf_w = - 2147483548, rf_h = - 2147483548\<rparr>
            = \<lparr>rf_x = - 2147483598, rf_y = - 2147483598, rf_w = 2147485598, rf_h = 2147485598\<rparr>"
    by (simp add: QRectF_united_def QRectF_isNull_def Let_def)
  have new: "sceneRect (widget (updateSceneRect demo_toolkit ?u))
            = \<lparr>rf_x = - 2147483598, rf_y = - 2147483598, rf_w = 2147485598, rf_h = 2147485598\<rparr>"
    unfolding updateSceneRect_def pr sr tp ts Let_def using nc
    by (simp add: setSceneRect_def un)
  have out: "\<not> rf_within \<lparr>rf_x = 0, rf_y = 0, rf_w = 13421772800, rf_h = 10066329600\<rparr>
      \<lparr>rf_x = - 2147483598, rf_y = - 2147483598, rf_w = 2147485598, rf_h = 2147485598\<rparr>"
    by (simp add: rf_within_def rf_left_def rf_right_def rf_top_def rf_bottom_def)
  show ?thesis unfolding vr sr pr new using out by simp
qed

end
